theory Spec2Isabelle
  imports Complex_Main "HOL-Library.Multiset" "HOL-Library.Log_Nat"
begin

section \<open>Data model (types.ts, constants.ts)\<close>

text \<open>
  The three closed attribute sets of \<^verbatim>\<open>types.ts\<close>. The constructors carry a prefix
  because single capital letters are variable names in HOL.
\<close>

datatype EquipmentClass =
  Eq_HB | Eq_LB | Eq_TR | Eq_BHR | Eq_BBR | Eq_FSR | Eq_BBC | Eq_BL | Eq_BU | Eq_FSC | Eq_FU

datatype AgeGroup = Age_C | Age_J | Age_YA | Age_A | Age_V | Age_S

datatype Gender = Gen_F | Gen_M

text \<open>
  \<^verbatim>\<open>interface Competitor\<close>. The optional \<^verbatim>\<open>guardianId?: string\<close> is an option;
  the field \<^verbatim>\<open>id\<close> is called \<open>idC\<close> (\<open>id\<close> is the identity function of HOL).
\<close>

record Competitor =
  idC :: string
  equipmentClass :: EquipmentClass
  ageCategory :: AgeGroup
  gender :: Gender
  guardianId :: "string option"

text \<open>
  The source tests \<^verbatim>\<open>if (competitor.guardianId)\<close>: JavaScript truthiness, under which
  both a missing field and the empty string count as "no guardian".
\<close>

definition truthyGuardian :: "Competitor \<Rightarrow> string option" where
  "truthyGuardian c =
     (case guardianId c of None \<Rightarrow> None | Some g \<Rightarrow> (if g = [] then None else Some g))"

section \<open>JavaScript numbers\<close>

text \<open>
  A JavaScript number is a real or one of the three special values of the source
  language. The operations \<open>js_add\<close>, \<open>js_mul\<close>, ... of this section compute the exact
  result on finite values and model where the source leaves the finite numbers:
  \<^verbatim>\<open>0/0\<close> is \<open>NaN\<close>, \<^verbatim>\<open>x/0\<close> is an infinity, \<^verbatim>\<open>Math.max()\<close> of nothing
  is \<open>-Infinity\<close>, the square root of a negative number is \<open>NaN\<close>, and every
  comparison with \<open>NaN\<close> is false. The operations \<open>fl_add\<close>, \<open>fl_mul\<close>, ... of the
  next subsection round that exact result to the nearest IEEE 754 binary64 value, as the
  machine does. The sign of zero is not modelled.
\<close>

datatype jsnum = Num real | PInf | NInf | NaN

fun js_neg :: "jsnum \<Rightarrow> jsnum" where
  "js_neg (Num a) = Num (- a)"
| "js_neg PInf = NInf"
| "js_neg NInf = PInf"
| "js_neg NaN = NaN"

fun js_add :: "jsnum \<Rightarrow> jsnum \<Rightarrow> jsnum" where
  "js_add (Num a) (Num b) = Num (a + b)"
| "js_add NaN _ = NaN"
| "js_add _ NaN = NaN"
| "js_add PInf NInf = NaN"
| "js_add NInf PInf = NaN"
| "js_add PInf _ = PInf"
| "js_add _ PInf = PInf"
| "js_add NInf _ = NInf"
| "js_add _ NInf = NInf"

definition js_sub :: "jsnum \<Rightarrow> jsnum \<Rightarrow> jsnum" where
  "js_sub a b = js_add a (js_neg b)"

text \<open>The sign of a product or quotient with an infinite operand.\<close>

definition js_signed_inf :: "bool \<Rightarrow> jsnum" where
  "js_signed_inf positive = (if positive then PInf else NInf)"

fun js_mul :: "jsnum \<Rightarrow> jsnum \<Rightarrow> jsnum" where
  "js_mul (Num a) (Num b) = Num (a * b)"
| "js_mul NaN _ = NaN"
| "js_mul _ NaN = NaN"
| "js_mul PInf (Num b) = (if b = 0 then NaN else js_signed_inf (0 < b))"
| "js_mul NInf (Num b) = (if b = 0 then NaN else js_signed_inf (b < 0))"
| "js_mul (Num a) PInf = (if a = 0 then NaN else js_signed_inf (0 < a))"
| "js_mul (Num a) NInf = (if a = 0 then NaN else js_signed_inf (a < 0))"
| "js_mul PInf PInf = PInf"
| "js_mul NInf NInf = PInf"
| "js_mul PInf NInf = NInf"
| "js_mul NInf PInf = NInf"

fun js_div :: "jsnum \<Rightarrow> jsnum \<Rightarrow> jsnum" where
  "js_div (Num a) (Num b) =
     (if b = 0 then (if a = 0 then NaN else js_signed_inf (0 < a)) else Num (a / b))"
| "js_div NaN _ = NaN"
| "js_div _ NaN = NaN"
| "js_div PInf (Num b) = js_signed_inf (0 \<le> b)"
| "js_div NInf (Num b) = js_signed_inf (b < 0)"
| "js_div (Num a) _ = Num 0"
| "js_div _ _ = NaN"

fun js_sqrt :: "jsnum \<Rightarrow> jsnum" where
  "js_sqrt (Num a) = (if a < 0 then NaN else Num (sqrt a))"
| "js_sqrt PInf = PInf"
| "js_sqrt _ = NaN"

fun js_abs :: "jsnum \<Rightarrow> jsnum" where
  "js_abs (Num a) = Num \<bar>a\<bar>"
| "js_abs NaN = NaN"
| "js_abs _ = PInf"

fun js_lt :: "jsnum \<Rightarrow> jsnum \<Rightarrow> bool" where
  "js_lt (Num a) (Num b) = (a < b)"
| "js_lt NaN _ = False"
| "js_lt _ NaN = False"
| "js_lt _ NInf = False"
| "js_lt PInf _ = False"
| "js_lt _ _ = True"

definition js_gt :: "jsnum \<Rightarrow> jsnum \<Rightarrow> bool" where
  "js_gt a b = js_lt b a"

fun js_ge :: "jsnum \<Rightarrow> jsnum \<Rightarrow> bool" where
  "js_ge NaN _ = False"
| "js_ge _ NaN = False"
| "js_ge a b = (\<not> js_lt a b)"

text \<open>\<^verbatim>\<open>Math.max(a, b)\<close> and \<^verbatim>\<open>Math.min(a, b)\<close>: \<open>NaN\<close> if either argument is.\<close>

fun js_max2 :: "jsnum \<Rightarrow> jsnum \<Rightarrow> jsnum" where
  "js_max2 NaN _ = NaN"
| "js_max2 _ NaN = NaN"
| "js_max2 a b = (if js_lt a b then b else a)"

fun js_min2 :: "jsnum \<Rightarrow> jsnum \<Rightarrow> jsnum" where
  "js_min2 NaN _ = NaN"
| "js_min2 _ NaN = NaN"
| "js_min2 a b = (if js_lt b a then b else a)"

text \<open>\<^verbatim>\<open>Math.max(...xs)\<close> and \<^verbatim>\<open>Math.min(...xs)\<close> over an array.\<close>

definition js_max_list :: "jsnum list \<Rightarrow> jsnum" where
  "js_max_list xs = fold (\<lambda>x acc. js_max2 acc x) xs NInf"

definition js_min_list :: "jsnum list \<Rightarrow> jsnum" where
  "js_min_list xs = fold (\<lambda>x acc. js_min2 acc x) xs PInf"

text \<open>An array length or a counter, read as a number.\<close>

definition js_nat :: "nat \<Rightarrow> jsnum" where
  "js_nat n = Num (real n)"

subsection \<open>Rounding to binary64\<close>

text \<open>
  \<open>roundTiesToEven\<close> is the rounding of IEEE 754 to the nearest integer, a tie going to
  the even neighbour.
\<close>

definition roundTiesToEven :: "real \<Rightarrow> int" where
  "roundTiesToEven y =
     (let f = \<lfloor>y\<rfloor>; r = y - of_int f
      in if r < 1 / 2 then f else if 1 / 2 < r then f + 1 else if even f then f else f + 1)"

text \<open>
  The binade of \<open>x \<noteq> 0\<close> is the integer \<open>k\<close> with \<open>2 powi k \<le> \<bar>x\<bar> < 2 powi (k + 1)\<close>;
  \<open>floorlog 2 n\<close> is the number of binary digits of \<open>n\<close>.
\<close>

definition binade :: "real \<Rightarrow> int" where
  "binade x =
     (if 1 \<le> \<bar>x\<bar> then int (floorlog 2 (nat \<lfloor>\<bar>x\<bar>\<rfloor>)) - 1
      else - int (floorlog 2 (nat (\<lceil>1 / \<bar>x\<bar>\<rceil> - 1))))"

text \<open>
  \<open>binary64 x\<close> is the double nearest to \<open>x\<close>. A double has 53 significant bits, so in
  binade \<open>k\<close> the doubles are the multiples of \<open>2 powi (k - 52)\<close>; below the smallest
  normal binade -1022 they are the multiples of \<open>2 powi (- 1074)\<close>. A rounded value of
  magnitude \<open>2 ^ 1024\<close> or more is an infinity.
\<close>

definition binary64 :: "real \<Rightarrow> jsnum" where
  "binary64 x =
     (if x = 0 then Num 0
      else
        (let e = max (binade x) (- 1022) - 52;
             r = of_int (roundTiesToEven (x / 2 powi e)) * 2 powi e
         in if 2 ^ 1024 \<le> \<bar>r\<bar> then js_signed_inf (0 < x) else Num r))"

fun js_round :: "jsnum \<Rightarrow> jsnum" where
  "js_round (Num a) = binary64 a"
| "js_round x = x"

text \<open>
  The four arithmetic operators of the source on doubles: IEEE 754 returns the exact
  result, correctly rounded.
\<close>

definition fl_add :: "jsnum \<Rightarrow> jsnum \<Rightarrow> jsnum" where
  "fl_add a b = js_round (js_add a b)"

definition fl_sub :: "jsnum \<Rightarrow> jsnum \<Rightarrow> jsnum" where
  "fl_sub a b = js_round (js_sub a b)"

definition fl_mul :: "jsnum \<Rightarrow> jsnum \<Rightarrow> jsnum" where
  "fl_mul a b = js_round (js_mul a b)"

definition fl_div :: "jsnum \<Rightarrow> jsnum \<Rightarrow> jsnum" where
  "fl_div a b = js_round (js_div a b)"

section \<open>Options and their sanitizer (utils.ts, common/options-validator.ts)\<close>

datatype Algorithm = Alg_mip | Alg_mip_lp | Alg_clustering | Alg_auto

text \<open>
  \<^verbatim>\<open>Partial<PartitionOptions>\<close>: every key may be absent. In this record, which is
  the one the solvers below work with, the four size and count options are whole numbers
  and the three weights are reals. What the sanitizer does with the other values a key of
  type \<^verbatim>\<open>number\<close> can hold at run time is the subject of the subsection
  "The sanitizer on run-time values".
\<close>

record PartialOptions =
  p_algorithm :: "Algorithm option"
  p_groupByEquipmentClass :: "bool option"
  p_maxSubsets :: "int option"
  p_minSubsetSize :: "int option"
  p_maxSubsetSize :: "int option"
  p_preferredSubsetSize :: "int option"
  p_genderWeight :: "real option"
  p_ageCategoryWeight :: "real option"
  p_equipmentClassWeight :: "real option"

text \<open>\<^verbatim>\<open>Required<PartitionOptions>\<close>, also \<^verbatim>\<open>ValidatedPartitionOptions\<close>.\<close>

record PartitionOptions =
  algorithm :: Algorithm
  groupByEquipmentClass :: bool
  maxSubsets :: int
  minSubsetSize :: int
  maxSubsetSize :: int
  preferredSubsetSize :: int
  genderWeight :: real
  ageCategoryWeight :: real
  equipmentClassWeight :: real

definition DEFAULT_OPTIONS :: PartitionOptions where
  "DEFAULT_OPTIONS = \<lparr> algorithm = Alg_auto, groupByEquipmentClass = True, maxSubsets = 28,
     minSubsetSize = 2, maxSubsetSize = 6, preferredSubsetSize = 4, genderWeight = 1,
     ageCategoryWeight = 1, equipmentClassWeight = 1 \<rparr>"

text \<open>The spread \<^verbatim>\<open>{ ...DEFAULT_OPTIONS, ...options }\<close>: a present key wins.\<close>

definition mergeOptions :: "PartitionOptions \<Rightarrow> PartialOptions \<Rightarrow> PartitionOptions" where
  "mergeOptions d p = \<lparr>
     algorithm = (case p_algorithm p of None \<Rightarrow> algorithm d | Some v \<Rightarrow> v),
     groupByEquipmentClass =
       (case p_groupByEquipmentClass p of None \<Rightarrow> groupByEquipmentClass d | Some v \<Rightarrow> v),
     maxSubsets = (case p_maxSubsets p of None \<Rightarrow> maxSubsets d | Some v \<Rightarrow> v),
     minSubsetSize = (case p_minSubsetSize p of None \<Rightarrow> minSubsetSize d | Some v \<Rightarrow> v),
     maxSubsetSize = (case p_maxSubsetSize p of None \<Rightarrow> maxSubsetSize d | Some v \<Rightarrow> v),
     preferredSubsetSize =
       (case p_preferredSubsetSize p of None \<Rightarrow> preferredSubsetSize d | Some v \<Rightarrow> v),
     genderWeight = (case p_genderWeight p of None \<Rightarrow> genderWeight d | Some v \<Rightarrow> v),
     ageCategoryWeight =
       (case p_ageCategoryWeight p of None \<Rightarrow> ageCategoryWeight d | Some v \<Rightarrow> v),
     equipmentClassWeight =
       (case p_equipmentClassWeight p of None \<Rightarrow> equipmentClassWeight d | Some v \<Rightarrow> v) \<rparr>"

text \<open>
  \<^verbatim>\<open>validateAndSanitizeOptions\<close>, one definition per statement of the source, in the
  source's order.
\<close>

definition swapIfInverted :: "PartitionOptions \<Rightarrow> PartitionOptions" where
  "swapIfInverted s =
     (if minSubsetSize s > maxSubsetSize s
      then s\<lparr> minSubsetSize := maxSubsetSize s, maxSubsetSize := minSubsetSize s \<rparr>
      else s)"

definition raiseMinimum :: "PartitionOptions \<Rightarrow> PartitionOptions" where
  "raiseMinimum s = (if minSubsetSize s < 2 then s\<lparr> minSubsetSize := 2 \<rparr> else s)"

definition raiseMaximum :: "PartitionOptions \<Rightarrow> PartitionOptions" where
  "raiseMaximum s =
     (if maxSubsetSize s < minSubsetSize s then s\<lparr> maxSubsetSize := minSubsetSize s \<rparr> else s)"

definition clampPreferred :: "PartitionOptions \<Rightarrow> PartitionOptions" where
  "clampPreferred s =
     (let s1 = (if preferredSubsetSize s < minSubsetSize s
                then s\<lparr> preferredSubsetSize := minSubsetSize s \<rparr> else s)
      in if preferredSubsetSize s1 > maxSubsetSize s1
         then s1\<lparr> preferredSubsetSize := maxSubsetSize s1 \<rparr> else s1)"

definition smallBatchRule :: "nat \<Rightarrow> PartitionOptions \<Rightarrow> PartitionOptions" where
  "smallBatchRule competitorCount s =
     (if competitorCount \<le> 112 then s\<lparr> maxSubsetSize := min (maxSubsetSize s) 4 \<rparr> else s)"

definition validateAndSanitizeOptions :: "PartialOptions \<Rightarrow> nat \<Rightarrow> PartitionOptions" where
  "validateAndSanitizeOptions options competitorCount =
     smallBatchRule competitorCount
       (clampPreferred (raiseMaximum (raiseMinimum (swapIfInverted
          (mergeOptions DEFAULT_OPTIONS options)))))"

text \<open>The options object \<^verbatim>\<open>{}\<close>.\<close>

definition noOptions :: PartialOptions where
  "noOptions = \<lparr> p_algorithm = None, p_groupByEquipmentClass = None, p_maxSubsets = None,
     p_minSubsetSize = None, p_maxSubsetSize = None, p_preferredSubsetSize = None,
     p_genderWeight = None, p_ageCategoryWeight = None, p_equipmentClassWeight = None \<rparr>"

text \<open>
  The solvers hand their already sanitized options to the sanitizer a second time
  (\<^verbatim>\<open>new SimpleMIPSolver(competitors, opts)\<close>); a full options object is a partial one
  with every key present.
\<close>

definition asPartial :: "PartitionOptions \<Rightarrow> PartialOptions" where
  "asPartial s = \<lparr> p_algorithm = Some (algorithm s),
     p_groupByEquipmentClass = Some (groupByEquipmentClass s),
     p_maxSubsets = Some (maxSubsets s), p_minSubsetSize = Some (minSubsetSize s),
     p_maxSubsetSize = Some (maxSubsetSize s),
     p_preferredSubsetSize = Some (preferredSubsetSize s),
     p_genderWeight = Some (genderWeight s), p_ageCategoryWeight = Some (ageCategoryWeight s),
     p_equipmentClassWeight = Some (equipmentClassWeight s) \<rparr>"


subsection \<open>The sanitizer on run-time values\<close>

text \<open>
  \<^verbatim>\<open>Partial<PartitionOptions>\<close> is a compile-time type. At run time a key that is
  present holds \<^verbatim>\<open>undefined\<close> (an optional property admits it) or a number, which
  may be \<open>NaN\<close>, an infinity or a fraction. The comparisons of the sanitizer convert
  \<^verbatim>\<open>undefined\<close> to \<open>NaN\<close>, and every comparison with \<open>NaN\<close> is false.
\<close>

datatype jsval = Undefined | Number jsnum

fun toNumber :: "jsval \<Rightarrow> jsnum" where
  "toNumber Undefined = NaN"
| "toNumber (Number x) = x"

text \<open>
  The three keys the sanitizer reads and writes; it copies the others. \<open>None\<close> is an
  absent key.
\<close>

record RawOptions =
  raw_minSubsetSize :: "jsval option"
  raw_maxSubsetSize :: "jsval option"
  raw_preferredSubsetSize :: "jsval option"

record RawSizes =
  rawMin :: jsval
  rawMax :: jsval
  rawPreferred :: jsval

definition rawDefaults :: RawSizes where
  "rawDefaults = \<lparr> rawMin = Number (Num (real_of_int (minSubsetSize DEFAULT_OPTIONS))),
     rawMax = Number (Num (real_of_int (maxSubsetSize DEFAULT_OPTIONS))),
     rawPreferred = Number (Num (real_of_int (preferredSubsetSize DEFAULT_OPTIONS))) \<rparr>"

text \<open>The spread: a present key wins, whatever it holds.\<close>

definition mergeOptions_js :: "RawSizes \<Rightarrow> RawOptions \<Rightarrow> RawSizes" where
  "mergeOptions_js d p = \<lparr>
     rawMin = (case raw_minSubsetSize p of None \<Rightarrow> rawMin d | Some v \<Rightarrow> v),
     rawMax = (case raw_maxSubsetSize p of None \<Rightarrow> rawMax d | Some v \<Rightarrow> v),
     rawPreferred = (case raw_preferredSubsetSize p of None \<Rightarrow> rawPreferred d | Some v \<Rightarrow> v) \<rparr>"

definition swapIfInverted_js :: "RawSizes \<Rightarrow> RawSizes" where
  "swapIfInverted_js s =
     (if js_gt (toNumber (rawMin s)) (toNumber (rawMax s))
      then s\<lparr> rawMin := rawMax s, rawMax := rawMin s \<rparr>
      else s)"

definition raiseMinimum_js :: "RawSizes \<Rightarrow> RawSizes" where
  "raiseMinimum_js s =
     (if js_lt (toNumber (rawMin s)) (Num 2) then s\<lparr> rawMin := Number (Num 2) \<rparr> else s)"

definition raiseMaximum_js :: "RawSizes \<Rightarrow> RawSizes" where
  "raiseMaximum_js s =
     (if js_lt (toNumber (rawMax s)) (toNumber (rawMin s)) then s\<lparr> rawMax := rawMin s \<rparr> else s)"

definition clampPreferred_js :: "RawSizes \<Rightarrow> RawSizes" where
  "clampPreferred_js s =
     (let s1 = (if js_lt (toNumber (rawPreferred s)) (toNumber (rawMin s))
                then s\<lparr> rawPreferred := rawMin s \<rparr> else s)
      in if js_gt (toNumber (rawPreferred s1)) (toNumber (rawMax s1))
         then s1\<lparr> rawPreferred := rawMax s1 \<rparr> else s1)"

text \<open>\<^verbatim>\<open>Math.min(maxSubsetSize, 4)\<close> converts its arguments to numbers.\<close>

definition smallBatchRule_js :: "nat \<Rightarrow> RawSizes \<Rightarrow> RawSizes" where
  "smallBatchRule_js competitorCount s =
     (if competitorCount \<le> 112
      then s\<lparr> rawMax := Number (js_min2 (toNumber (rawMax s)) (Num 4)) \<rparr> else s)"

definition validateAndSanitizeOptions_js :: "RawOptions \<Rightarrow> nat \<Rightarrow> RawSizes" where
  "validateAndSanitizeOptions_js options competitorCount =
     smallBatchRule_js competitorCount
       (clampPreferred_js (raiseMaximum_js (raiseMinimum_js (swapIfInverted_js
          (mergeOptions_js rawDefaults options)))))"

text \<open>Options with whole-number sizes, as run-time values.\<close>

definition wholeNumber :: "int \<Rightarrow> jsval" where
  "wholeNumber i = Number (Num (real_of_int i))"

definition rawOptionsOf :: "PartialOptions \<Rightarrow> RawOptions" where
  "rawOptionsOf p = \<lparr> raw_minSubsetSize = map_option wholeNumber (p_minSubsetSize p),
     raw_maxSubsetSize = map_option wholeNumber (p_maxSubsetSize p),
     raw_preferredSubsetSize = map_option wholeNumber (p_preferredSubsetSize p) \<rparr>"

definition rawSizesOf :: "PartitionOptions \<Rightarrow> RawSizes" where
  "rawSizesOf s = \<lparr> rawMin = wholeNumber (minSubsetSize s), rawMax = wholeNumber (maxSubsetSize s),
     rawPreferred = wholeNumber (preferredSubsetSize s) \<rparr>"

section \<open>Scoring (utils.ts: calculateScore, createPartitionResult)\<close>

text \<open>
  The scores are sums and quotients of doubles and are computed with the rounding
  operations.

  The counting loops fill a \<^verbatim>\<open>Map\<close> by
  \<^verbatim>\<open>m.set(key, (m.get(key) || 0) + 1)\<close>. A \<^verbatim>\<open>Map\<close> iterates in insertion order, so
  it is an association list in which a new key goes to the end and a known key keeps its
  place.
\<close>

fun bumpCount :: "'k \<Rightarrow> ('k \<times> nat) list \<Rightarrow> ('k \<times> nat) list" where
  "bumpCount k [] = [(k, 1)]"
| "bumpCount k ((k', c) # rest) =
     (if k = k' then (k', c + 1) # rest else (k', c) # bumpCount k rest)"

definition countBy :: "('c \<Rightarrow> 'k) \<Rightarrow> 'c list \<Rightarrow> ('k \<times> nat) list" where
  "countBy f xs = fold (\<lambda>x m. bumpCount (f x) m) xs []"

text \<open>\<^verbatim>\<open>for (const count of m.values()) if (count % 2 === 0) total += count\<close>.\<close>

definition evenCountTotal :: "('k \<times> nat) list \<Rightarrow> nat" where
  "evenCountTotal m = sum_list (filter (\<lambda>count. count mod 2 = 0) (map snd m))"

text \<open>\<^verbatim>\<open>Math.max(...m.values())\<close>.\<close>

definition maxCount :: "('k \<times> nat) list \<Rightarrow> jsnum" where
  "maxCount m = js_max_list (map (\<lambda>kc. js_nat (snd kc)) m)"

record ScoreBreakdown =
  sizeScore :: jsnum
  genderScore :: jsnum
  ageCategoryScore :: jsnum
  equipmentClassScore :: jsnum

text \<open>
  The body of \<^verbatim>\<open>for (const subset of subsets)\<close>: it computes one term for each of
  the four scores, here \<open>groupTerms\<close>, and adds each to its running sum with \<^verbatim>\<open>+=\<close>.
\<close>

definition groupTerms :: "PartitionOptions \<Rightarrow> Competitor list \<Rightarrow> ScoreBreakdown" where
  "groupTerms opts sub =
     (let size = length sub;
          sizeDeviation = js_abs (fl_sub (js_nat size) (Num (real_of_int (preferredSubsetSize opts))));
          genderCounts = countBy gender sub;
          genderBalance = evenCountTotal genderCounts;
          ageCategoryCounts = countBy ageCategory sub;
          maxAgeCount = maxCount ageCategoryCounts;
          equipmentCounts = countBy equipmentClass sub
      in \<lparr> sizeScore = js_max2 (Num 0) (fl_sub (Num 10) (fl_mul sizeDeviation (Num 2))),
           genderScore = fl_mul (fl_div (js_nat genderBalance) (js_nat size)) (Num 10),
           ageCategoryScore = fl_mul (fl_div maxAgeCount (js_nat size)) (Num 10),
           equipmentClassScore =
             (if groupByEquipmentClass opts
              then fl_mul (fl_div (maxCount equipmentCounts) (js_nat size)) (Num 10)
              else fl_mul (fl_div (js_nat (length equipmentCounts)) (js_nat (min size 3)))
                     (Num 10)) \<rparr>)"

definition scoreStep :: "PartitionOptions \<Rightarrow> Competitor list \<Rightarrow> ScoreBreakdown \<Rightarrow> ScoreBreakdown"
  where
  "scoreStep opts sub acc =
     (let terms = groupTerms opts sub
      in \<lparr> sizeScore = fl_add (sizeScore acc) (sizeScore terms),
           genderScore = fl_add (genderScore acc) (genderScore terms),
           ageCategoryScore = fl_add (ageCategoryScore acc) (ageCategoryScore terms),
           equipmentClassScore = fl_add (equipmentClassScore acc) (equipmentClassScore terms) \<rparr>)"

definition zeroScores :: ScoreBreakdown where
  "zeroScores = \<lparr> sizeScore = Num 0, genderScore = Num 0, ageCategoryScore = Num 0,
     equipmentClassScore = Num 0 \<rparr>"

text \<open>\<^verbatim>\<open>calculateScore\<close> returns \<^verbatim>\<open>{ score, breakdown }\<close>, here a pair.\<close>

definition calculateScore :: "Competitor list list \<Rightarrow> PartialOptions \<Rightarrow> jsnum \<times> ScoreBreakdown"
  where
  "calculateScore subs options =
     (let opts = mergeOptions DEFAULT_OPTIONS options;
          totals = fold (scoreStep opts) subs zeroScores;
          nSubsets = js_nat (length subs);
          breakdown = \<lparr>
            sizeScore = fl_div (sizeScore totals) nSubsets,
            genderScore = fl_mul (fl_div (genderScore totals) nSubsets) (Num (genderWeight opts)),
            ageCategoryScore =
              fl_mul (fl_div (ageCategoryScore totals) nSubsets) (Num (ageCategoryWeight opts)),
            equipmentClassScore =
              fl_mul (fl_div (equipmentClassScore totals) nSubsets)
                (Num (equipmentClassWeight opts)) \<rparr>;
          totalScore =
            fl_add (fl_add (fl_add (sizeScore breakdown) (genderScore breakdown))
              (ageCategoryScore breakdown)) (equipmentClassScore breakdown)
      in (totalScore, breakdown))"

record Metadata =
  totalCompetitors :: nat
  totalSubsets :: nat
  averageSubsetSize :: jsnum
  scoreBreakdown :: ScoreBreakdown

record PartitionResult =
  subsets :: "Competitor list list"
  score :: jsnum
  metadata :: Metadata

definition createPartitionResult :: "Competitor list list \<Rightarrow> PartialOptions \<Rightarrow> PartitionResult"
  where
  "createPartitionResult subs options =
     (let total = fold (\<lambda>sub acc. acc + length sub) subs 0;
          (totalScore, breakdown) = calculateScore subs options
      in \<lparr> subsets = subs, score = totalScore,
           metadata = \<lparr> totalCompetitors = total, totalSubsets = length subs,
             averageSubsetSize = fl_div (js_nat total) (js_nat (length subs)),
             scoreBreakdown = breakdown \<rparr> \<rparr>)"

text \<open>
  \<^verbatim>\<open>AlgorithmResult\<close>. Its \<^verbatim>\<open>executionTime\<close> is a difference of two readings of
  the wall clock and is left out.
\<close>

record AlgorithmResult =
  result :: PartitionResult
  algorithmUsed :: string

text \<open>common/algorithm-base.ts\<close>

definition handleEmptyDataset :: "PartialOptions \<Rightarrow> string \<Rightarrow> AlgorithmResult" where
  "handleEmptyDataset options algorithmName =
     (let validatedOptions = validateAndSanitizeOptions options 0
      in \<lparr> result = createPartitionResult [] (asPartial validatedOptions),
           algorithmUsed = algorithmName \<rparr>)"

definition createAlgorithmResult ::
  "Competitor list \<Rightarrow> Competitor list list \<Rightarrow> PartitionOptions \<Rightarrow> string \<Rightarrow> AlgorithmResult"
  where
  "createAlgorithmResult competitors subs options algorithmName =
     \<lparr> result = createPartitionResult subs (asPartial options),
       algorithmUsed = algorithmName \<rparr>"

text \<open>
  algorithms/mip-solver-lp.ts: the branch \<^verbatim>\<open>if (competitors.length === 0)\<close> of
  \<^verbatim>\<open>solveMIPWithLP\<close>, which merges the options with the defaults without sanitizing
  them. Its other branch hands a model to the external HiGHS solver and is not part of
  this development.
\<close>

definition solveMIPWithLP_empty :: "PartialOptions \<Rightarrow> AlgorithmResult" where
  "solveMIPWithLP_empty options =
     (let opts = mergeOptions DEFAULT_OPTIONS options
      in \<lparr> result = createPartitionResult [] (asPartial opts),
           algorithmUsed = ''Mixed Integer Programming (HiGHS)'' \<rparr>)"

section \<open>Guardian families (utils.ts: createGuardianFamilies)\<close>

text \<open>
  The first loop fills two maps: guardian id to the list of its dependents (in input
  order), and dependent id to guardian id.
\<close>

definition guardianToDependents :: "Competitor list \<Rightarrow> (string \<rightharpoonup> Competitor list)" where
  "guardianToDependents competitors =
     fold (\<lambda>competitor m.
        (case truthyGuardian competitor of
           None \<Rightarrow> m
         | Some g \<Rightarrow> m(g \<mapsto> (case m g of None \<Rightarrow> [] | Some ds \<Rightarrow> ds) @ [competitor])))
       competitors Map.empty"

definition dependentToGuardian :: "Competitor list \<Rightarrow> (string \<rightharpoonup> string)" where
  "dependentToGuardian competitors =
     fold (\<lambda>competitor m.
        (case truthyGuardian competitor of
           None \<Rightarrow> m
         | Some g \<Rightarrow> m(idC competitor \<mapsto> g)))
       competitors Map.empty"

text \<open>
  The second loop, with its two pieces of state: the families so far and the set
  \<^verbatim>\<open>processed\<close> of ids.
\<close>

fun familiesLoop ::
  "(string \<rightharpoonup> Competitor list) \<Rightarrow> (string \<rightharpoonup> string) \<Rightarrow> Competitor list
     \<Rightarrow> Competitor list list \<Rightarrow> string set \<Rightarrow> Competitor list list" where
  "familiesLoop g2d d2g [] families processed = families"
| "familiesLoop g2d d2g (competitor # rest) families processed =
     (if idC competitor \<in> processed then familiesLoop g2d d2g rest families processed
      else (case g2d (idC competitor) of
              Some dependents \<Rightarrow>
                (let family = competitor # dependents
                 in familiesLoop g2d d2g rest (families @ [family])
                      (processed \<union> set (map idC family)))
            | None \<Rightarrow>
                (if d2g (idC competitor) \<noteq> None
                 then familiesLoop g2d d2g rest families processed
                 else familiesLoop g2d d2g rest (families @ [[competitor]])
                        (insert (idC competitor) processed))))"

definition createGuardianFamilies :: "Competitor list \<Rightarrow> Competitor list list" where
  "createGuardianFamilies competitors =
     familiesLoop (guardianToDependents competitors) (dependentToGuardian competitors)
       competitors [] {}"

section \<open>Feature vectors and distances (algorithms/clustering.ts)\<close>

text \<open>
  Feature vectors may have arbitrary real coordinates; their sums, averages and distances
  are computed with the exact operations.

  \<^verbatim>\<open>[...new Set(values)]\<close>: the distinct values in the order of their first
  occurrence.
\<close>

definition uniqueInOrder :: "'a list \<Rightarrow> 'a list" where
  "uniqueInOrder xs = fold (\<lambda>x seen. if x \<in> set seen then seen else seen @ [x]) xs []"

definition oneHot :: "'a \<Rightarrow> 'a list \<Rightarrow> jsnum list" where
  "oneHot v vs = map (\<lambda>u. if v = u then Num 1 else Num 0) vs"

definition encodeCompetitor :: "Competitor \<Rightarrow> Competitor list \<Rightarrow> jsnum list" where
  "encodeCompetitor competitor allCompetitors =
     (let uniqueGenders = uniqueInOrder (map gender allCompetitors);
          uniqueAgeCategories = uniqueInOrder (map ageCategory allCompetitors);
          uniqueEquipmentClasses = uniqueInOrder (map equipmentClass allCompetitors)
      in oneHot (gender competitor) uniqueGenders
         @ oneHot (ageCategory competitor) uniqueAgeCategories
         @ oneHot (equipmentClass competitor) uniqueEquipmentClasses
         @ [if truthyGuardian competitor \<noteq> None then Num 1 else Num 0])"

text \<open>
  Reading an array element for arithmetic: an index past the end yields
  \<^verbatim>\<open>undefined\<close>, which arithmetic turns into \<open>NaN\<close>.
\<close>

definition nthNum :: "jsnum list \<Rightarrow> nat \<Rightarrow> jsnum" where
  "nthNum xs i = (if i < length xs then xs ! i else NaN)"

definition calculateDistance :: "jsnum list \<Rightarrow> jsnum list \<Rightarrow> jsnum" where
  "calculateDistance features1 features2 =
     js_sqrt (fold (\<lambda>i total.
                 (let diff = js_sub (nthNum features1 i) (nthNum features2 i)
                  in js_add total (js_mul diff diff)))
               [0..<length features1] (Num 0))"

record FeatureWeights =
  genderStart :: nat
  ageStart :: nat
  equipmentStart :: nat

text \<open>The weight the loop body of \<^verbatim>\<open>calculateWeightedDistance\<close> picks for index \<open>i\<close>.\<close>

definition featureWeight :: "PartitionOptions \<Rightarrow> FeatureWeights \<Rightarrow> nat \<Rightarrow> real" where
  "featureWeight options featureWeights i =
     (if i \<ge> genderStart featureWeights \<and> i < ageStart featureWeights
        then genderWeight options
      else if i \<ge> ageStart featureWeights \<and> i < equipmentStart featureWeights
        then ageCategoryWeight options
      else if i \<ge> equipmentStart featureWeights
        then equipmentClassWeight options
      else 1)"

definition calculateWeightedDistance ::
  "jsnum list \<Rightarrow> jsnum list \<Rightarrow> PartitionOptions \<Rightarrow> FeatureWeights \<Rightarrow> jsnum" where
  "calculateWeightedDistance features1 features2 options featureWeights =
     js_sqrt (fold (\<lambda>i total.
                 (let diff = js_sub (nthNum features1 i) (nthNum features2 i);
                      weight = Num (featureWeight options featureWeights i)
                  in js_add total (js_mul (js_mul weight diff) diff)))
               [0..<length features1] (Num 0))"



section \<open>Errors and randomness\<close>

text \<open>
  The two exceptions the solvers can throw: a \<^verbatim>\<open>TypeError\<close> when a property of
  \<^verbatim>\<open>undefined\<close> is read (an array element past the end), a \<^verbatim>\<open>RangeError\<close> when an
  array is created with a negative length. A function that can throw returns
  \<open>error + 'a\<close>.
\<close>

datatype error = TypeError | RangeError

fun sequenceE :: "('e + 'a) list \<Rightarrow> 'e + 'a list" where
  "sequenceE [] = Inr []"
| "sequenceE (x # xs) =
     (case x of
        Inl e \<Rightarrow> Inl e
      | Inr v \<Rightarrow> (case sequenceE xs of Inl e \<Rightarrow> Inl e | Inr vs \<Rightarrow> Inr (v # vs)))"

fun foldE :: "('a \<Rightarrow> 's \<Rightarrow> 'e + 's) \<Rightarrow> 'a list \<Rightarrow> 's \<Rightarrow> 'e + 's" where
  "foldE f [] st = Inr st"
| "foldE f (x # xs) st = (case f x st of Inl e \<Rightarrow> Inl e | Inr st' \<Rightarrow> foldE f xs st')"

text \<open>
  \<^verbatim>\<open>Math.random()\<close> returns a number in \<open>[0, 1)\<close>. The source of randomness is a
  parameter: the sequence of the numbers the calls return, read with a counter that every
  function drawing from it hands on.
\<close>

typedef unit_interval = "{r :: real. 0 \<le> r \<and> r < 1}"
  by (rule exI[of _ 0]) simp

type_synonym RandomSource = "nat \<Rightarrow> unit_interval"

definition mathRandom :: "RandomSource \<Rightarrow> nat \<Rightarrow> real" where
  "mathRandom rnd k = Rep_unit_interval (rnd k)"

definition swapAt :: "'a list \<Rightarrow> nat \<Rightarrow> nat \<Rightarrow> 'a list" where
  "swapAt xs i j = xs[i := xs ! j, j := xs ! i]"

text \<open>
  \<^verbatim>\<open>shuffle\<close> (utils.ts), Fisher-Yates: \<open>i\<close> runs from the last index down to 1 and
  \<open>j = \<lfloor>random * (i + 1)\<rfloor>\<close> is at most \<open>i\<close>.
\<close>

definition shuffle :: "RandomSource \<Rightarrow> nat \<Rightarrow> 'a list \<Rightarrow> 'a list \<times> nat" where
  "shuffle rnd k array =
     fold (\<lambda>i (res, k). (swapAt res i (nat \<lfloor>mathRandom rnd k * real (i + 1)\<rfloor>), k + 1))
       (rev [1..<length array]) (array, k)"

section \<open>Clustering (algorithms/clustering.ts)\<close>

record FamilyFeatures =
  family :: "Competitor list"
  features :: "jsnum list"
  clusterId :: int

text \<open>\<^verbatim>\<open>interface ClusterCenter\<close>; its fields \<^verbatim>\<open>id\<close> and \<^verbatim>\<open>features\<close> carry a prefix.\<close>

record ClusterCenter =
  centerId :: nat
  centerFeatures :: "jsnum list"
  members :: "FamilyFeatures list"

text \<open>\<^verbatim>\<open>members.reduce((sum, family) => sum + family.family.length, 0)\<close>\<close>

definition clusterSize :: "FamilyFeatures list \<Rightarrow> nat" where
  "clusterSize ms = sum_list (map (\<lambda>fam. length (family fam)) ms)"

text \<open>
  \<^verbatim>\<open>acc[i] += xs[i]\<close> for every index of \<open>xs\<close>: an index past the end of \<open>acc\<close> reads
  \<^verbatim>\<open>undefined\<close> and stores \<open>NaN\<close> there.
\<close>

definition addInto :: "jsnum list \<Rightarrow> jsnum list \<Rightarrow> jsnum list" where
  "addInto acc xs =
     map (\<lambda>i. if i < length xs then js_add (nthNum acc i) (xs ! i) else acc ! i)
       [0..<max (length acc) (length xs)]"

text \<open>
  The coordinate-wise mean as the source computes it three times: an array of \<open>len\<close>
  zeros, every vector added into it, every entry divided by the number of vectors.
\<close>

definition averageFeatures :: "nat \<Rightarrow> jsnum list list \<Rightarrow> jsnum list" where
  "averageFeatures len vectors =
     map (\<lambda>x. js_div x (js_nat (length vectors)))
       (fold (\<lambda>v acc. addInto acc v) vectors (replicate len (Num 0)))"

definition createFamilyFeatures ::
  "Competitor list list \<Rightarrow> Competitor list \<Rightarrow> error + FamilyFeatures list" where
  "createFamilyFeatures families allCompetitors =
     sequenceE (map (\<lambda>fam.
        (let familyMemberFeatures = map (\<lambda>competitor. encodeCompetitor competitor allCompetitors) fam
         in case familyMemberFeatures of
              [] \<Rightarrow> Inl TypeError
            | first # _ \<Rightarrow>
                Inr \<lparr> family = fam,
                      features = averageFeatures (length first) familyMemberFeatures,
                      clusterId = - 1 \<rparr>)) families)"

text \<open>
  The selection loop of k-means++: the first index at which the running sum reaches the
  random value, or the initial \<^verbatim>\<open>selectedIndex = 0\<close>.
\<close>

fun selectIndex :: "jsnum list \<Rightarrow> jsnum \<Rightarrow> nat \<Rightarrow> jsnum \<Rightarrow> nat" where
  "selectIndex [] randomValue j cumulativeDistance = 0"
| "selectIndex (d # ds) randomValue j cumulativeDistance =
     (if js_ge (js_add cumulativeDistance d) randomValue then j
      else selectIndex ds randomValue (j + 1) (js_add cumulativeDistance d))"

definition chooseNextCenter ::
  "RandomSource \<Rightarrow> FamilyFeatures list \<Rightarrow> nat \<Rightarrow> ClusterCenter list \<times> nat
     \<Rightarrow> ClusterCenter list \<times> nat" where
  "chooseNextCenter rnd families i st =
     (case st of (centers, k) \<Rightarrow>
        (let distances = map (\<lambda>fam.
               (let minDist = js_min_list (map (\<lambda>center.
                      calculateDistance (features fam) (centerFeatures center)) centers)
                in js_mul minDist minDist)) families;
             totalDistance = fold (\<lambda>dist total. js_add total dist) distances (Num 0);
             randomValue = js_mul (Num (mathRandom rnd k)) totalDistance;
             selectedIndex = selectIndex distances randomValue 0 (Num 0)
         in (centers @ [\<lparr> centerId = i,
                           centerFeatures = features (families ! selectedIndex),
                           members = [] \<rparr>], k + 1)))"

definition initializeClusterCenters ::
  "RandomSource \<Rightarrow> nat \<Rightarrow> FamilyFeatures list \<Rightarrow> int \<Rightarrow> error + (ClusterCenter list \<times> nat)"
  where
  "initializeClusterCenters rnd k familyFeatures numClusters =
     (if familyFeatures = [] then Inl TypeError
      else
        (let firstCenter =
               familyFeatures ! (nat \<lfloor>mathRandom rnd k * real (length familyFeatures)\<rfloor>)
         in Inr (fold (chooseNextCenter rnd familyFeatures) [1..<nat numClusters]
                   ([\<lparr> centerId = 0, centerFeatures = features firstCenter, members = [] \<rparr>],
                    k + 1))))"

definition nearestCenter ::
  "jsnum list \<Rightarrow> ClusterCenter list \<Rightarrow> PartitionOptions \<Rightarrow> FeatureWeights \<Rightarrow> nat" where
  "nearestCenter fs centers options featureWeights =
     snd (fold (\<lambda>i (minDistance, bestCluster).
            (let distance =
                   calculateWeightedDistance fs (centerFeatures (centers ! i)) options featureWeights
             in if js_lt distance minDistance then (distance, i) else (minDistance, bestCluster)))
          [0..<length centers] (PInf, 0))"

text \<open>
  \<^verbatim>\<open>assignToClusters\<close> mutates the families and the centers; the model returns both.
  \<^verbatim>\<open>centers[bestCluster]\<close> is \<^verbatim>\<open>undefined\<close> only when there is no center at all.
\<close>

definition assignToClusters ::
  "FamilyFeatures list \<Rightarrow> ClusterCenter list \<Rightarrow> PartitionOptions \<Rightarrow> FeatureWeights
     \<Rightarrow> error + (FamilyFeatures list \<times> ClusterCenter list)" where
  "assignToClusters familyFeatures centers options featureWeights =
     (if centers = [] \<and> familyFeatures \<noteq> [] then Inl TypeError
      else Inr (fold (\<lambda>fam (ffs, cs).
             (let bestCluster = nearestCenter (features fam) cs options featureWeights;
                  fam' = fam\<lparr> clusterId := int bestCluster \<rparr>
              in (ffs @ [fam'],
                  cs[bestCluster := (cs ! bestCluster)\<lparr> members := members (cs ! bestCluster) @ [fam'] \<rparr>])))
           familyFeatures ([], map (\<lambda>center. center\<lparr> members := [] \<rparr>) centers)))"

definition updateCenter :: "ClusterCenter \<Rightarrow> ClusterCenter \<times> bool" where
  "updateCenter center =
     (if members center = [] then (center, False)
      else
        (let newFeatures =
               averageFeatures (length (centerFeatures center)) (map features (members center));
             moved = list_ex (\<lambda>i.
               js_gt (js_abs (js_sub (centerFeatures center ! i) (nthNum newFeatures i)))
                 (Num (1 / 1000000))) [0..<length (centerFeatures center)]
         in (center\<lparr> centerFeatures := newFeatures \<rparr>, moved)))"

definition updateClusterCenters :: "ClusterCenter list \<Rightarrow> ClusterCenter list \<times> bool" where
  "updateClusterCenters centers =
     (map (\<lambda>center. fst (updateCenter center)) centers,
      list_ex (\<lambda>center. snd (updateCenter center)) centers)"

definition maxIterations :: nat where
  "maxIterations = 100"

text \<open>The k-means iterations: \<^verbatim>\<open>for (let iteration = 0; iteration < maxIterations; iteration++)\<close>.\<close>

function kmeansLoop ::
  "nat \<Rightarrow> FamilyFeatures list \<Rightarrow> ClusterCenter list \<Rightarrow> PartitionOptions \<Rightarrow> FeatureWeights
     \<Rightarrow> error + (FamilyFeatures list \<times> ClusterCenter list)" where
  "kmeansLoop iteration familyFeatures centers options featureWeights =
     (if iteration < maxIterations
      then (case assignToClusters familyFeatures centers options featureWeights of
              Inl e \<Rightarrow> Inl e
            | Inr (ffs, cs) \<Rightarrow>
                (if snd (updateClusterCenters cs)
                 then kmeansLoop (iteration + 1) ffs (fst (updateClusterCenters cs))
                        options featureWeights
                 else Inr (ffs, fst (updateClusterCenters cs))))
      else Inr (familyFeatures, centers))"
  by pat_completeness auto
termination
  by (relation "measure (\<lambda>(iteration, _). maxIterations - iteration)") auto

declare kmeansLoop.simps [simp del]

subsection \<open>Constraint repair: adjustClusterSizes\<close>

text \<open>
  The body of the loop that splits an oversized cluster. Its state: the bucket being
  filled and its size, the valid centers and the families set aside for redistribution.
\<close>

fun splitStep ::
  "PartitionOptions \<Rightarrow> jsnum list \<Rightarrow> FamilyFeatures
     \<Rightarrow> FamilyFeatures list \<times> nat \<times> ClusterCenter list \<times> FamilyFeatures list
     \<Rightarrow> FamilyFeatures list \<times> nat \<times> ClusterCenter list \<times> FamilyFeatures list" where
  "splitStep options cf fam (currentCluster, currentSize, validCenters, redistributeFamilies) =
     (let familySize = length (family fam)
      in if int (currentSize + familySize) > maxSubsetSize options
         then (if int currentSize \<ge> minSubsetSize options
               then ([fam], familySize,
                     validCenters @ [\<lparr> centerId = length validCenters, centerFeatures = cf,
                                        members = currentCluster \<rparr>],
                     redistributeFamilies)
               else ([fam], familySize, validCenters, redistributeFamilies @ currentCluster))
         else (currentCluster @ [fam], currentSize + familySize, validCenters,
               redistributeFamilies))"

text \<open>
  The body of the first loop, \<^verbatim>\<open>for (const center of centers)\<close>: keep, split or
  dissolve one cluster. The state also carries the counter of the random source, which
  the shuffle advances.
\<close>

fun classifyCenter ::
  "RandomSource \<Rightarrow> PartitionOptions \<Rightarrow> ClusterCenter
     \<Rightarrow> ClusterCenter list \<times> FamilyFeatures list \<times> nat
     \<Rightarrow> ClusterCenter list \<times> FamilyFeatures list \<times> nat" where
  "classifyCenter rnd options center (validCenters, redistributeFamilies, k) =
     (if members center = [] then (validCenters, redistributeFamilies, k)
      else
        (let total = clusterSize (members center)
         in if int total \<le> maxSubsetSize options \<and> int total \<ge> minSubsetSize options
            then (validCenters @ [center], redistributeFamilies, k)
            else if int total > maxSubsetSize options
            then (case shuffle rnd k (members center) of
                    (shuffledFamilies, k') \<Rightarrow>
                      (case fold (splitStep options (centerFeatures center)) shuffledFamilies
                              ([], 0, validCenters, redistributeFamilies) of
                         (currentCluster, currentSize, valid', redistribute') \<Rightarrow>
                           (if currentCluster \<noteq> []
                            then (if int currentSize \<ge> minSubsetSize options
                                  then (valid' @ [\<lparr> centerId = length valid',
                                                      centerFeatures = centerFeatures center,
                                                      members = currentCluster \<rparr>],
                                        redistribute', k')
                                  else (valid', redistribute' @ currentCluster, k'))
                            else (valid', redistribute', k'))))
            else (validCenters, redistributeFamilies @ members center, k)))"

text \<open>
  The inner scan \<^verbatim>\<open>for (let i = redistributeFamilies.length - 1; i >= 0; i--)\<close>:
  the last family of the backlog that fits the cluster, if any.
\<close>

definition findLastFitting :: "PartitionOptions \<Rightarrow> nat \<Rightarrow> FamilyFeatures list \<Rightarrow> nat option"
  where
  "findLastFitting options currentSize redistributeFamilies =
     find (\<lambda>i. int (currentSize + length (family (redistributeFamilies ! i)))
                  \<le> maxSubsetSize options)
       (rev [0..<length redistributeFamilies])"

definition removeAt :: "nat \<Rightarrow> 'a list \<Rightarrow> 'a list" where
  "removeAt i xs = take i xs @ drop (Suc i) xs"

text \<open>
  The body of \<^verbatim>\<open>for (const center of validCenters)\<close> in the redistribution loop,
  for the center at index \<open>ci\<close>: at most one family moves into it. Once the backlog is
  empty the source leaves the loop; the remaining rounds of the model change nothing.
\<close>

fun placeStep ::
  "PartitionOptions \<Rightarrow> nat \<Rightarrow> ClusterCenter list \<times> FamilyFeatures list \<times> bool
     \<Rightarrow> ClusterCenter list \<times> FamilyFeatures list \<times> bool" where
  "placeStep options ci (validCenters, redistributeFamilies, placed) =
     (if redistributeFamilies = [] then (validCenters, redistributeFamilies, placed)
      else
        (let center = validCenters ! ci
         in case findLastFitting options (clusterSize (members center)) redistributeFamilies of
              None \<Rightarrow> (validCenters, redistributeFamilies, placed)
            | Some i \<Rightarrow>
                (validCenters[ci := center\<lparr> members := members center @ [redistributeFamilies ! i] \<rparr>],
                 removeAt i redistributeFamilies, True)))"

text \<open>
  Filling a new cluster from the front of the backlog:
  \<^verbatim>\<open>while (redistributeFamilies.length > 0 && newClusterSize < options.preferredSubsetSize)\<close>.
  It returns the new cluster and what is left of the backlog.
\<close>

fun fillNewCluster ::
  "PartitionOptions \<Rightarrow> FamilyFeatures list \<Rightarrow> FamilyFeatures list \<Rightarrow> nat
     \<Rightarrow> FamilyFeatures list \<times> FamilyFeatures list" where
  "fillNewCluster options [] newCluster newClusterSize = (newCluster, [])"
| "fillNewCluster options (fam # rest) newCluster newClusterSize =
     (if int newClusterSize < preferredSubsetSize options
      then (if int (newClusterSize + length (family fam)) \<le> maxSubsetSize options
            then fillNewCluster options rest (newCluster @ [fam])
                   (newClusterSize + length (family fam))
            else (newCluster, fam # rest))
      else (newCluster, fam # rest))"

text \<open>The first cluster of least size: the scan replaces its candidate on a strictly smaller size.\<close>

definition smallestCenterIndex :: "ClusterCenter list \<Rightarrow> nat" where
  "smallestCenterIndex validCenters =
     fold (\<lambda>i best.
        if clusterSize (members (validCenters ! i)) < clusterSize (members (validCenters ! best))
        then i else best)
       [0..<length validCenters] 0"

text \<open>
  The forced placement: every family left goes into the cluster that is smallest at that
  moment. \<^verbatim>\<open>validCenters[0]\<close> is \<^verbatim>\<open>undefined\<close> when there is no cluster.
\<close>

fun forceIntoSmallest :: "ClusterCenter list \<Rightarrow> FamilyFeatures list \<Rightarrow> error + ClusterCenter list"
  where
  "forceIntoSmallest validCenters [] = Inr validCenters"
| "forceIntoSmallest validCenters (fam # rest) =
     (if validCenters = [] then Inl TypeError
      else
        (let b = smallestCenterIndex validCenters
         in forceIntoSmallest
              (validCenters[b := (validCenters ! b)\<lparr> members := members (validCenters ! b) @ [fam] \<rparr>])
              rest))"

text \<open>
  One round of \<^verbatim>\<open>while (redistributeFamilies.length > 0)\<close>. The creation of a new
  cluster and, nested inside the same \<^verbatim>\<open>if\<close>, the forced placement are both guarded
  by \<^verbatim>\<open>!placed && ... && validCenters.length < effectiveMaxSubsets\<close>.
\<close>

definition redistributePass ::
  "PartitionOptions \<Rightarrow> int \<Rightarrow> ClusterCenter list \<times> FamilyFeatures list
     \<Rightarrow> error + (ClusterCenter list \<times> FamilyFeatures list)" where
  "redistributePass options effectiveMaxSubsets st =
     (case fold (placeStep options) [0..<length (fst st)] (fst st, snd st, False) of
        (valid1, backlog1, placed) \<Rightarrow>
          (if \<not> placed \<and> backlog1 \<noteq> [] \<and> int (length valid1) < effectiveMaxSubsets
           then (case fillNewCluster options backlog1 [] 0 of
                   (newCluster, backlog2) \<Rightarrow>
                     (let valid2 =
                            (case newCluster of
                               [] \<Rightarrow> valid1
                             | first # _ \<Rightarrow>
                                 valid1 @ [\<lparr> centerId = length valid1,
                                              centerFeatures =
                                                averageFeatures (length (features first))
                                                  (map features newCluster),
                                              members = newCluster \<rparr>])
                      in if backlog2 \<noteq> []
                            \<and> (newCluster = [] \<or> int (length valid2) \<ge> effectiveMaxSubsets)
                         then (case forceIntoSmallest valid2 backlog2 of
                                 Inl e \<Rightarrow> Inl e
                               | Inr valid3 \<Rightarrow> Inr (valid3, []))
                         else Inr (valid2, backlog2)))
           else Inr (valid1, backlog1)))"

text \<open>
  \<^verbatim>\<open>while (redistributeFamilies.length > 0)\<close>. The source gives no bound for this
  loop, so it is a partial function: \<open>None\<close> stands for a run that never leaves it.
\<close>

partial_function (option) redistributeLoop ::
  "PartitionOptions \<Rightarrow> int \<Rightarrow> ClusterCenter list \<times> FamilyFeatures list
     \<Rightarrow> (error + ClusterCenter list) option" where
  "redistributeLoop options effectiveMaxSubsets st =
     (if snd st = [] then Some (Inr (fst st))
      else (case redistributePass options effectiveMaxSubsets st of
              Inl e \<Rightarrow> Some (Inl e)
            | Inr st' \<Rightarrow> redistributeLoop options effectiveMaxSubsets st'))"

text \<open>
  \<^verbatim>\<open>maxAllowedClusters || options.maxSubsets\<close>: a missing argument and the number 0 both
  fall through to the option.
\<close>

definition effectiveMax :: "PartitionOptions \<Rightarrow> int option \<Rightarrow> int" where
  "effectiveMax options maxAllowedClusters =
     (case maxAllowedClusters of
        None \<Rightarrow> maxSubsets options
      | Some m \<Rightarrow> (if m = 0 then maxSubsets options else m))"

definition adjustClusterSizes ::
  "RandomSource \<Rightarrow> nat \<Rightarrow> ClusterCenter list \<Rightarrow> PartitionOptions \<Rightarrow> int option
     \<Rightarrow> (error + ClusterCenter list) option" where
  "adjustClusterSizes rnd k centers options maxAllowedClusters =
     (case fold (classifyCenter rnd options) centers ([], [], k) of
        (validCenters, redistributeFamilies, k') \<Rightarrow>
          redistributeLoop options (effectiveMax options maxAllowedClusters)
            (validCenters, redistributeFamilies))"

subsection \<open>The passes of solveClustering after adjustClusterSizes\<close>

text \<open>The score of merging two subsets of the given combined size.\<close>

definition mergeScore :: "PartitionOptions \<Rightarrow> int \<Rightarrow> int" where
  "mergeScore opts combinedSize =
     (if combinedSize \<le> maxSubsetSize opts then 1000 - combinedSize
      else if combinedSize \<le> maxSubsetSize opts + 1 then 50 - combinedSize
      else 10 - combinedSize)"

text \<open>
  The double loop over the pairs \<open>i < j\<close>: the first pair of highest score, if any score
  exceeds the initial \<^verbatim>\<open>bestScore = -1\<close>.
\<close>

definition indexPairs :: "nat \<Rightarrow> (nat \<times> nat) list" where
  "indexPairs n = concat (map (\<lambda>i. map (\<lambda>j. (i, j)) [i + 1..<n]) [0..<n - 1])"

definition findBestMerge :: "PartitionOptions \<Rightarrow> Competitor list list \<Rightarrow> (nat \<times> nat) option"
  where
  "findBestMerge opts subs =
     snd (fold (\<lambda>(i, j) (bestScore, bestMerge).
            (let combinedSize = int (length (subs ! i) + length (subs ! j))
             in if mergeScore opts combinedSize > bestScore
                then (mergeScore opts combinedSize, Some (i, j))
                else (bestScore, bestMerge)))
          (indexPairs (length subs)) (- 1, None))"

text \<open>The fallback: the indices of the two smallest subsets, as the source's single scan finds them.\<close>

definition twoSmallest :: "Competitor list list \<Rightarrow> nat \<times> nat" where
  "twoSmallest subs =
     fold (\<lambda>i (smallestIdx1, smallestIdx2).
        if length (subs ! i) < length (subs ! smallestIdx1) then (i, smallestIdx1)
        else if i \<noteq> smallestIdx1 \<and> length (subs ! i) < length (subs ! smallestIdx2)
        then (smallestIdx1, i)
        else (smallestIdx1, smallestIdx2))
       [0..<length subs] (0, 1)"

definition mergeInto :: "nat \<Rightarrow> nat \<Rightarrow> 'a list list \<Rightarrow> 'a list list" where
  "mergeInto i j subs = removeAt j (subs[i := subs ! i @ subs ! j])"

text \<open>
  One round of \<^verbatim>\<open>while (subsets.length > opts.maxSubsets)\<close>. With fewer than two
  subsets the fallback reads \<^verbatim>\<open>subsets[1]\<close> (or \<^verbatim>\<open>subsets[0]\<close>), which is
  \<^verbatim>\<open>undefined\<close>.
\<close>

definition mergeOnce :: "PartitionOptions \<Rightarrow> Competitor list list \<Rightarrow> error + Competitor list list"
  where
  "mergeOnce opts subs =
     (case findBestMerge opts subs of
        Some (i, j) \<Rightarrow> Inr (mergeInto i j subs)
      | None \<Rightarrow>
          (if length subs < 2 then Inl TypeError
           else Inr (mergeInto (fst (twoSmallest subs)) (snd (twoSmallest subs)) subs)))"

lemma fold_candidate_bound:
  assumes step: "\<And>x st. snd (f x st) = snd st \<or> snd (f x st) = Some x"
    and res: "snd (fold f xs st) = Some y"
  shows "snd st = Some y \<or> y \<in> set xs"
  using res
proof (induction xs arbitrary: st)
  case Nil
  then show ?case by simp
next
  case (Cons x xs)
  from Cons.prems have "snd (fold f xs (f x st)) = Some y" by simp
  from Cons.IH[OF this] have "snd (f x st) = Some y \<or> y \<in> set xs" .
  with step[of x st] show ?case by auto
qed

lemma findBestMerge_bound:
  assumes "findBestMerge opts subs = Some (i, j)"
  shows "i < j \<and> j < length subs"
proof -
  have "snd (- 1 :: int, None :: (nat \<times> nat) option) = Some (i, j)
          \<or> (i, j) \<in> set (indexPairs (length subs))"
    by (rule fold_candidate_bound[OF _ assms[unfolded findBestMerge_def]])
       (auto simp: Let_def split: prod.splits)
  then have "(i, j) \<in> set (indexPairs (length subs))" by simp
  then show ?thesis unfolding indexPairs_def by auto
qed

lemma twoSmallest_fold_bound:
  "fold (\<lambda>i (smallestIdx1, smallestIdx2).
        if length (subs ! i) < length (subs ! smallestIdx1) then (i, smallestIdx1)
        else if i \<noteq> smallestIdx1 \<and> length (subs ! i) < length (subs ! smallestIdx2)
        then (smallestIdx1, i)
        else (smallestIdx1, smallestIdx2)) is st = (a, b)
   \<Longrightarrow> \<forall>i\<in>set is. i < n \<Longrightarrow> fst st < n \<Longrightarrow> snd st < n \<Longrightarrow> a < n \<and> b < n"
  by (induction "is" arbitrary: st) (auto split: if_splits prod.splits)

lemma twoSmallest_bound:
  assumes "2 \<le> length subs"
  shows "fst (twoSmallest subs) < length subs \<and> snd (twoSmallest subs) < length subs"
proof -
  obtain a b where ab: "twoSmallest subs = (a, b)" by (cases "twoSmallest subs")
  have "a < length subs \<and> b < length subs"
    using twoSmallest_fold_bound[OF ab[unfolded twoSmallest_def], of "length subs"] assms
    by fastforce
  with ab show ?thesis by simp
qed

lemma length_mergeInto: "j < length subs \<Longrightarrow> length (mergeInto i j subs) < length subs"
  by (simp add: mergeInto_def removeAt_def)

lemma mergeOnce_shorter:
  assumes "mergeOnce opts subs = Inr subs'"
  shows "length subs' < length subs"
proof (cases "findBestMerge opts subs")
  case None
  with assms have l: "2 \<le> length subs"
    and e: "subs' = mergeInto (fst (twoSmallest subs)) (snd (twoSmallest subs)) subs"
    by (auto simp: mergeOnce_def split: if_splits)
  from twoSmallest_bound[OF l] e show ?thesis by (simp add: length_mergeInto)
next
  case (Some p)
  obtain i j where p: "p = (i, j)" by (cases p)
  with Some assms have "subs' = mergeInto i j subs" by (simp add: mergeOnce_def)
  with findBestMerge_bound[of opts subs i j] Some p show ?thesis by (simp add: length_mergeInto)
qed

text \<open>\<^verbatim>\<open>while (subsets.length > opts.maxSubsets)\<close>: every round removes one subset.\<close>

function mergeExcess :: "PartitionOptions \<Rightarrow> Competitor list list \<Rightarrow> error + Competitor list list"
  where
  "mergeExcess opts subs =
     (if int (length subs) > maxSubsets opts
      then (case mergeOnce opts subs of
              Inl e \<Rightarrow> Inl e
            | Inr subs' \<Rightarrow> mergeExcess opts subs')
      else Inr subs)"
  by pat_completeness auto
termination
  by (relation "measure (\<lambda>(opts, subs). length subs)") (auto simp: mergeOnce_shorter)

declare mergeExcess.simps [simp del]

text \<open>
  The rebuild of the "final fix": one family is placed into the open subset whose new size
  is closest to the target (the first such, \<^verbatim>\<open>bestScore\<close> starting at -1), else into a
  new subset while fewer than \<^verbatim>\<open>maxSubsets\<close> are open, else into the smallest one.
\<close>

definition bestOpenSubset :: "PartitionOptions \<Rightarrow> int \<Rightarrow> nat \<Rightarrow> Competitor list list \<Rightarrow> nat option"
  where
  "bestOpenSubset opts targetSize familySize subs =
     snd (fold (\<lambda>i (bestScore, bestSubsetIndex).
            (let newSize = int (length (subs ! i) + familySize)
             in if newSize \<le> maxSubsetSize opts \<and> 1000 - \<bar>newSize - targetSize\<bar> > bestScore
                then (1000 - \<bar>newSize - targetSize\<bar>, Some i)
                else (bestScore, bestSubsetIndex)))
          [0..<nat (min (int (length subs)) (maxSubsets opts))] (- 1, None))"

definition smallestSubsetIndex :: "'a list list \<Rightarrow> nat" where
  "smallestSubsetIndex subs =
     fold (\<lambda>i smallestIndex.
        if length (subs ! i) < length (subs ! smallestIndex) then i else smallestIndex)
       [1..<length subs] 0"

definition placeFamily ::
  "PartitionOptions \<Rightarrow> int \<Rightarrow> Competitor list \<Rightarrow> Competitor list list
     \<Rightarrow> error + Competitor list list" where
  "placeFamily opts targetSize fam subs =
     (case bestOpenSubset opts targetSize (length fam) subs of
        Some b \<Rightarrow> Inr (subs[b := subs ! b @ fam])
      | None \<Rightarrow>
          (if int (length subs) < maxSubsets opts then Inr (subs @ [fam])
           else if subs = [] then Inl TypeError
           else Inr (subs[smallestSubsetIndex subs :=
                       subs ! smallestSubsetIndex subs @ fam])))"

text \<open>
  The "final fix". \<^verbatim>\<open>familiesInSubsets.sort((a, b) => b.family.length - a.family.length)\<close>
  is a stable sort by decreasing family size; the \<^verbatim>\<open>subsetIndex\<close> computed for each
  family is never read. The target size is \<^verbatim>\<open>Math.floor(total / maxSubsets)\<close>, and
  \<^verbatim>\<open>maxSubsets\<close> is the positive number of subsets wherever it is used.
\<close>

definition finalFix ::
  "PartitionOptions \<Rightarrow> Competitor list list \<Rightarrow> Competitor list list
     \<Rightarrow> error + Competitor list list" where
  "finalFix opts families subs =
     (if int (length subs) = maxSubsets opts
      then
        (let total = sum_list (map length subs);
             targetSize = int total div maxSubsets opts;
             oversized = filter (\<lambda>s. int (length s) > maxSubsetSize opts) subs;
             undersized = filter (\<lambda>s. int (length s) < minSubsetSize opts) subs
         in if oversized \<noteq> [] \<or> undersized \<noteq> []
            then foldE (placeFamily opts targetSize)
                   (sort_key (\<lambda>fam. - int (length fam)) families) []
            else Inr subs)
      else Inr subs)"

text \<open>
  The final cleanup. The source holds the undersized subsets by reference and finds their
  positions with \<^verbatim>\<open>indexOf\<close>; the model holds their indices.
\<close>

definition undersizedIndices :: "PartitionOptions \<Rightarrow> Competitor list list \<Rightarrow> nat list" where
  "undersizedIndices opts subs =
     filter (\<lambda>i. int (length (subs ! i)) < minSubsetSize opts) [0..<length subs]"

definition smallestUndersized :: "Competitor list list \<Rightarrow> nat \<Rightarrow> nat list \<Rightarrow> nat" where
  "smallestUndersized subs first rest =
     fold (\<lambda>i smallestIdx.
        if length (subs ! i) < length (subs ! smallestIdx) then i else smallestIdx)
       (first # rest) first"

text \<open>
  The merge target: the first smallest subset that can take the undersized one within the
  maximum size, \<^verbatim>\<open>bestMergeSize\<close> starting at \<^verbatim>\<open>Infinity\<close>.
\<close>

definition accommodatingTarget :: "PartitionOptions \<Rightarrow> Competitor list list \<Rightarrow> nat \<Rightarrow> nat option"
  where
  "accommodatingTarget opts subs smallestIdx =
     fold (\<lambda>i bestMergeIdx.
        if i = smallestIdx then bestMergeIdx
        else if int (length (subs ! i) + length (subs ! smallestIdx)) \<le> maxSubsetSize opts
                \<and> (case bestMergeIdx of
                      None \<Rightarrow> True
                    | Some b \<Rightarrow> length (subs ! i) < length (subs ! b))
        then Some i else bestMergeIdx)
       [0..<length subs] None"

definition fallbackTarget :: "Competitor list list \<Rightarrow> nat \<Rightarrow> nat" where
  "fallbackTarget subs smallestIdx =
     fold (\<lambda>i bestMergeIdx.
        if i \<noteq> smallestIdx \<and> length (subs ! i) < length (subs ! bestMergeIdx)
        then i else bestMergeIdx)
       [1..<length subs] 0"

text \<open>
  \<^verbatim>\<open>while (finalUndersized.length > 0 && cleanupIterations < maxCleanupIterations)\<close>;
  the first argument is the number of rounds still allowed.
\<close>

fun cleanupLoop :: "nat \<Rightarrow> PartitionOptions \<Rightarrow> Competitor list list \<Rightarrow> Competitor list list"
  where
  "cleanupLoop 0 opts subs = subs"
| "cleanupLoop (Suc remaining) opts subs =
     (case undersizedIndices opts subs of
        [] \<Rightarrow> subs
      | first # rest \<Rightarrow>
          (let smallestIdx = smallestUndersized subs first rest;
               bestMergeIdx =
                 (case accommodatingTarget opts subs smallestIdx of
                    Some b \<Rightarrow> b
                  | None \<Rightarrow> fallbackTarget subs smallestIdx)
           in if bestMergeIdx \<noteq> smallestIdx
              then cleanupLoop remaining opts (mergeInto bestMergeIdx smallestIdx subs)
              else subs))"

subsection \<open>solveClustering\<close>

text \<open>
  The number of clusters. The three quotients divide by sanitized sizes, which are at
  least 2.
\<close>

definition numClustersFor :: "PartitionOptions \<Rightarrow> nat \<Rightarrow> nat \<Rightarrow> int" where
  "numClustersFor opts n familyCount =
     (let minClusters = \<lceil>real n / real_of_int (maxSubsetSize opts)\<rceil>;
          maxClusters = min (maxSubsets opts) \<lfloor>real n / real_of_int (minSubsetSize opts)\<rfloor>;
          preferredClusters = round (real n / real_of_int (preferredSubsetSize opts))
      in min maxClusters (max minClusters (min preferredClusters (int familyCount))))"

definition clusteringFeatureWeights :: "Competitor list \<Rightarrow> FeatureWeights" where
  "clusteringFeatureWeights competitors =
     (let uniqueGenders = uniqueInOrder (map gender competitors);
          uniqueAgeCategories = uniqueInOrder (map ageCategory competitors)
      in \<lparr> genderStart = 0, ageStart = length uniqueGenders,
           equipmentStart = length uniqueGenders + length uniqueAgeCategories \<rparr>)"

text \<open>The subsets of the adjusted clusters: every family flattened into its competitors.\<close>

definition flattenCenters :: "ClusterCenter list \<Rightarrow> Competitor list list" where
  "flattenCenters adjustedCenters =
     map (\<lambda>center. concat (map family (members center))) adjustedCenters"

text \<open>What follows \<^verbatim>\<open>adjustClusterSizes\<close> in \<^verbatim>\<open>solveClustering\<close>.\<close>

definition finishClustering ::
  "Competitor list \<Rightarrow> PartitionOptions \<Rightarrow> Competitor list list \<Rightarrow> ClusterCenter list
     \<Rightarrow> error + AlgorithmResult" where
  "finishClustering competitors opts families adjustedCenters =
     (case mergeExcess opts (flattenCenters adjustedCenters) of
        Inl e \<Rightarrow> Inl e
      | Inr merged \<Rightarrow>
          (case finalFix opts families merged of
             Inl e \<Rightarrow> Inl e
           | Inr fixed \<Rightarrow>
               Inr (createAlgorithmResult competitors (cleanupLoop (length fixed) opts fixed)
                      opts ''K-means Clustering'')))"

text \<open>
  \<^verbatim>\<open>solveClustering\<close>. The result is \<open>None\<close> when the call never returns,
  \<open>Some (Inl e)\<close> when it throws and \<open>Some (Inr r)\<close> when it returns \<open>r\<close>.
\<close>

definition solveClustering ::
  "RandomSource \<Rightarrow> Competitor list \<Rightarrow> PartialOptions \<Rightarrow> (error + AlgorithmResult) option"
  where
  "solveClustering rnd competitors options =
     (if competitors = [] then Some (Inr (handleEmptyDataset options ''K-means Clustering''))
      else
        (let opts = validateAndSanitizeOptions options (length competitors);
             families = createGuardianFamilies competitors;
             featureWeights = clusteringFeatureWeights competitors;
             numClusters = numClustersFor opts (length competitors) (length families)
         in case createFamilyFeatures families competitors of
              Inl e \<Rightarrow> Some (Inl e)
            | Inr familyFeatures \<Rightarrow>
                (case initializeClusterCenters rnd 0 familyFeatures numClusters of
                   Inl e \<Rightarrow> Some (Inl e)
                 | Inr (centers0, k) \<Rightarrow>
                     (case kmeansLoop 0 familyFeatures centers0 opts featureWeights of
                        Inl e \<Rightarrow> Some (Inl e)
                      | Inr (ffs, centers) \<Rightarrow>
                          (case adjustClusterSizes rnd k centers opts (Some numClusters) of
                             None \<Rightarrow> None
                           | Some (Inl e) \<Rightarrow> Some (Inl e)
                           | Some (Inr adjustedCenters) \<Rightarrow>
                               Some (finishClustering competitors opts families
                                       adjustedCenters))))))"

section \<open>The greedy packer (algorithms/mip-solver.ts)\<close>

record MIPVariable =
  competitorIndex :: nat
  subsetIndex :: nat
  varValue :: nat

text \<open>\<^verbatim>\<open>initializeVariables\<close>: one variable per competitor and subset slot, competitor-major.\<close>

definition initializeVariables :: "nat \<Rightarrow> nat \<Rightarrow> MIPVariable list" where
  "initializeVariables numCompetitors m =
     concat (map (\<lambda>i. map (\<lambda>j. \<lparr> competitorIndex = i, subsetIndex = j, varValue = 0 \<rparr>) [0..<m])
               [0..<numCompetitors])"

text \<open>
  \<^verbatim>\<open>calculateSubsetScore\<close>: size, gender and age terms of one subset; the equipment
  class plays no part in it.
\<close>

definition calculateSubsetScore :: "PartitionOptions \<Rightarrow> Competitor list \<Rightarrow> jsnum" where
  "calculateSubsetScore opts sub =
     (if sub = [] then Num 0
      else
        (let size = length sub;
             sizeDeviation =
               js_abs (fl_sub (js_nat size) (Num (real_of_int (preferredSubsetSize opts))));
             score1 = fl_add (Num 0) (js_max2 (Num 0) (fl_sub (Num 10) (fl_mul sizeDeviation (Num 2))));
             evenGenderCount = evenCountTotal (countBy gender sub);
             score2 = fl_add score1
               (fl_mul (fl_mul (fl_div (js_nat evenGenderCount) (js_nat size)) (Num 10))
                  (Num (genderWeight opts)));
             maxAgeCount = maxCount (countBy ageCategory sub)
         in fl_add score2
              (fl_mul (fl_mul (fl_div maxAgeCount (js_nat size)) (Num 10))
                 (Num (ageCategoryWeight opts)))))"

text \<open>
  The scan over the unassigned families: the first family of highest score among those
  that fit, \<^verbatim>\<open>bestScore\<close> starting at \<^verbatim>\<open>-Infinity\<close>.
\<close>

definition findBestFamily ::
  "PartitionOptions \<Rightarrow> Competitor list \<Rightarrow> Competitor list list \<Rightarrow> nat option" where
  "findBestFamily opts sub unassignedFamilies =
     snd (fold (\<lambda>i (bestScore, bestFamilyIndex).
            if int (length sub + length (unassignedFamilies ! i)) \<le> maxSubsetSize opts
               \<and> js_gt (calculateSubsetScore opts (sub @ unassignedFamilies ! i)) bestScore
            then (calculateSubsetScore opts (sub @ unassignedFamilies ! i), Some i)
            else (bestScore, bestFamilyIndex))
          [0..<length unassignedFamilies] (NInf, None))"

lemma findBestFamily_bound:
  assumes "findBestFamily opts sub unassignedFamilies = Some i"
  shows "i < length unassignedFamilies"
proof -
  have "snd (NInf, None :: nat option) = Some i \<or> i \<in> set [0..<length unassignedFamilies]"
    by (rule fold_candidate_bound[OF _ assms[unfolded findBestFamily_def]])
       (auto split: prod.splits)
  then show ?thesis by simp
qed

text \<open>\<^verbatim>\<open>this.competitors.findIndex(c => c.id === competitor.id)\<close>; \<open>None\<close> is -1.\<close>

definition findIndexById :: "Competitor list \<Rightarrow> string \<Rightarrow> nat option" where
  "findIndexById competitors i = find (\<lambda>k. idC (competitors ! k) = i) [0..<length competitors]"

text \<open>
  Setting \<^verbatim>\<open>solution[competitorIndex * maxSubsets + subset].value = 1\<close> for every
  member of a family. An index outside the array (which is what -1 leads to) reads
  \<^verbatim>\<open>undefined\<close>, and the assignment to its property throws.
\<close>

fun markFamily ::
  "Competitor list \<Rightarrow> nat \<Rightarrow> nat \<Rightarrow> Competitor list \<Rightarrow> MIPVariable list
     \<Rightarrow> error + MIPVariable list" where
  "markFamily competitors m si [] solution = Inr solution"
| "markFamily competitors m si (competitor # rest) solution =
     (case findIndexById competitors (idC competitor) of
        None \<Rightarrow> Inl TypeError
      | Some ci \<Rightarrow>
          (if ci * m + si < length solution
           then markFamily competitors m si rest
                  (solution[ci * m + si := (solution ! (ci * m + si))\<lparr> varValue := 1 \<rparr>])
           else Inl TypeError))"

text \<open>
  The inner loop \<^verbatim>\<open>while (canAddMore && unassignedFamilies.length > 0)\<close> for one
  subset. It returns the subset, the families still unassigned, the solution and
  \<^verbatim>\<open>canAddMore\<close>.
\<close>

function fillSubset ::
  "PartitionOptions \<Rightarrow> Competitor list \<Rightarrow> nat \<Rightarrow> nat
     \<Rightarrow> Competitor list \<Rightarrow> Competitor list list \<Rightarrow> MIPVariable list
     \<Rightarrow> error + (Competitor list \<times> Competitor list list \<times> MIPVariable list \<times> bool)" where
  "fillSubset opts competitors m currentSubset sub unassignedFamilies solution =
     (if unassignedFamilies = [] then Inr (sub, unassignedFamilies, solution, True)
      else (case findBestFamily opts sub unassignedFamilies of
              None \<Rightarrow> Inr (sub, unassignedFamilies, solution, False)
            | Some bestFamilyIndex \<Rightarrow>
                (case markFamily competitors m currentSubset
                        (unassignedFamilies ! bestFamilyIndex) solution of
                   Inl e \<Rightarrow> Inl e
                 | Inr solution' \<Rightarrow>
                     fillSubset opts competitors m currentSubset
                       (sub @ unassignedFamilies ! bestFamilyIndex)
                       (removeAt bestFamilyIndex unassignedFamilies) solution')))"
  by pat_completeness auto
termination
  by (relation "measure (\<lambda>(opts, competitors, m, currentSubset, sub, unassignedFamilies, solution).
        length unassignedFamilies)")
     (auto simp: removeAt_def dest!: findBestFamily_bound)

declare fillSubset.simps [simp del]

lemma fillSubset_canAddMore:
  "fillSubset opts competitors m currentSubset sub unassignedFamilies solution
     = Inr (sub', unassigned', solution', True) \<Longrightarrow> unassigned' = []"
proof (induction opts competitors m currentSubset sub unassignedFamilies solution
    rule: fillSubset.induct)
  case (1 opts competitors m currentSubset sub unassignedFamilies solution)
  show ?case
  proof (cases "unassignedFamilies = []")
    case True
    with "1.prems" show ?thesis by (simp add: fillSubset.simps)
  next
    case False
    with "1.prems" "1.IH" show ?thesis
      by (subst (asm) fillSubset.simps) (auto split: option.splits sum.splits)
  qed
qed

text \<open>
  The main pass \<^verbatim>\<open>while (unassignedFamilies.length > 0 && currentSubset < this.maxSubsets)\<close>.
  State: the current subset index, the subsets, the unassigned families, the solution.
\<close>

function mainPass ::
  "PartitionOptions \<Rightarrow> Competitor list \<Rightarrow> nat
     \<Rightarrow> nat \<Rightarrow> Competitor list list \<Rightarrow> Competitor list list \<Rightarrow> MIPVariable list
     \<Rightarrow> error + (nat \<times> Competitor list list \<times> Competitor list list \<times> MIPVariable list)" where
  "mainPass opts competitors m currentSubset subs unassignedFamilies solution =
     (if unassignedFamilies \<noteq> [] \<and> currentSubset < m
      then (case fillSubset opts competitors m currentSubset (subs ! currentSubset)
                   unassignedFamilies solution of
              Inl e \<Rightarrow> Inl e
            | Inr (sub', unassigned', solution', canAddMore) \<Rightarrow>
                (if int (length sub') \<ge> minSubsetSize opts \<or> \<not> canAddMore
                 then mainPass opts competitors m (currentSubset + 1)
                        (subs[currentSubset := sub']) unassigned' solution'
                 else if unassigned' = []
                 then Inr (currentSubset, subs[currentSubset := sub'], unassigned', solution')
                 else mainPass opts competitors m currentSubset
                        (subs[currentSubset := sub']) unassigned' solution'))
      else Inr (currentSubset, subs, unassignedFamilies, solution))"
  by pat_completeness auto
termination
  by (relation "measure (\<lambda>(opts, competitors, m, currentSubset, subs, unassignedFamilies, solution).
        m - currentSubset)")
     (auto dest: fillSubset_canAddMore)

declare mainPass.simps [simp del]

text \<open>
  The second pass places one left-over family: the open subset with room that maximises
  closeness to the preferred size plus free space (\<^verbatim>\<open>bestSubsetIndex\<close> starts at 0,
  \<^verbatim>\<open>bestScore\<close> at -1).
\<close>

definition bestRoomySubset :: "PartitionOptions \<Rightarrow> nat \<Rightarrow> Competitor list list \<Rightarrow> nat" where
  "bestRoomySubset opts familySize subs =
     snd (fold (\<lambda>i (bestScore, bestSubsetIndex).
            (let currentSize = int (length (subs ! i));
                 newSize = currentSize + int familySize;
                 availableSpace = maxSubsetSize opts - currentSize;
                 totalScore = 1000 - \<bar>newSize - preferredSubsetSize opts\<bar> + availableSpace
             in if availableSpace \<ge> int familySize \<and> totalScore > bestScore
                then (totalScore, i) else (bestScore, bestSubsetIndex)))
          [0..<length subs] (- 1 :: int, 0))"

text \<open>
  \<^verbatim>\<open>while (unassignedFamilies.length > 0)\<close>, one family per round.
  \<^verbatim>\<open>subsets[bestSubsetIndex]\<close> is \<^verbatim>\<open>undefined\<close> when there is no subset slot.
\<close>

fun forcedPass ::
  "PartitionOptions \<Rightarrow> Competitor list \<Rightarrow> nat
     \<Rightarrow> nat \<Rightarrow> Competitor list list \<Rightarrow> Competitor list list \<Rightarrow> MIPVariable list
     \<Rightarrow> error + MIPVariable list" where
  "forcedPass opts competitors m currentSubset subs [] solution = Inr solution"
| "forcedPass opts competitors m currentSubset subs (fam # rest) solution =
     (if subs = [] then Inl TypeError
      else
        (let best0 = bestRoomySubset opts (length fam) subs;
             maxAvailableSpace = maxSubsetSize opts - int (length (subs ! best0));
             openNew = (maxAvailableSpace < int (length fam) \<and> currentSubset < m);
             bestSubsetIndex = (if openNew then currentSubset else best0);
             currentSubset' = (if openNew then currentSubset + 1 else currentSubset)
         in case markFamily competitors m bestSubsetIndex fam solution of
              Inl e \<Rightarrow> Inl e
            | Inr solution' \<Rightarrow>
                forcedPass opts competitors m currentSubset'
                  (subs[bestSubsetIndex := subs ! bestSubsetIndex @ fam]) rest solution'))"

text \<open>
  \<^verbatim>\<open>Array(n)\<close> throws a \<^verbatim>\<open>RangeError\<close> unless \<open>n\<close> is a whole number from 0 to
  4294967295.
\<close>

definition maxArrayLength :: int where
  "maxArrayLength = 4294967295"

definition validArrayLength :: "int \<Rightarrow> bool" where
  "validArrayLength n = (0 \<le> n \<and> n \<le> maxArrayLength)"

text \<open>
  \<^verbatim>\<open>solveGreedy\<close>, for a solver whose \<^verbatim>\<open>this.maxSubsets\<close> is \<open>solverMax\<close>, the
  length of its array of subsets.
\<close>

definition solveGreedy ::
  "PartitionOptions \<Rightarrow> Competitor list \<Rightarrow> int \<Rightarrow> error + MIPVariable list" where
  "solveGreedy opts competitors solverMax =
     (if \<not> validArrayLength solverMax then Inl RangeError
      else
        (let m = nat solverMax;
             solution = initializeVariables (length competitors) m;
             families = createGuardianFamilies competitors
         in case mainPass opts competitors m 0 (replicate m []) families solution of
              Inl e \<Rightarrow> Inl e
            | Inr (currentSubset, subs, unassignedFamilies, solution') \<Rightarrow>
                forcedPass opts competitors m currentSubset subs unassignedFamilies solution'))"

text \<open>
  \<^verbatim>\<open>solveMIP\<close>. The solver's constructor sanitizes the options once more and bounds
  the number of slots by \<^verbatim>\<open>Math.ceil(n / minSubsetSize)\<close>. Its \<^verbatim>\<open>solve()\<close> returns
  \<^verbatim>\<open>this.bestSolution || greedySolution\<close>, and \<^verbatim>\<open>bestSolution\<close> is either
  \<^verbatim>\<open>null\<close> or that same greedy solution, so the value is the greedy solution in both
  cases. The variables with value 1 are then read back into the subsets, an array of length
  \<^verbatim>\<open>opts.maxSubsets\<close>, in the order of the variables, and the empty subsets are
  dropped.
\<close>

definition solverMaxSubsets :: "PartitionOptions \<Rightarrow> nat \<Rightarrow> int" where
  "solverMaxSubsets solverOptions n =
     min (maxSubsets solverOptions) \<lceil>real n / real_of_int (minSubsetSize solverOptions)\<rceil>"

definition subsetsOfSolution ::
  "Competitor list \<Rightarrow> int \<Rightarrow> MIPVariable list \<Rightarrow> Competitor list list" where
  "subsetsOfSolution competitors slots solution =
     map (\<lambda>j. map (\<lambda>v. competitors ! competitorIndex v)
                (filter (\<lambda>v. varValue v = 1 \<and> subsetIndex v = j) solution))
       [0..<nat slots]"

definition solveMIP :: "Competitor list \<Rightarrow> PartialOptions \<Rightarrow> error + AlgorithmResult" where
  "solveMIP competitors options =
     (if competitors = [] then Inr (handleEmptyDataset options ''Mixed Integer Programming'')
      else
        (let opts = validateAndSanitizeOptions options (length competitors);
             solverOptions = validateAndSanitizeOptions (asPartial opts) (length competitors)
         in case solveGreedy solverOptions competitors
                   (solverMaxSubsets solverOptions (length competitors)) of
              Inl e \<Rightarrow> Inl e
            | Inr solution \<Rightarrow>
                (if \<not> validArrayLength (maxSubsets opts) then Inl RangeError
                 else
                   (let nonEmptySubsets =
                          filter (\<lambda>sub. length sub > 0)
                            (subsetsOfSolution competitors (maxSubsets opts) solution)
                    in Inr (createAlgorithmResult competitors nonEmptySubsets opts
                              ''Mixed Integer Programming'')))))"

section \<open>Concrete inputs\<close>

text \<open>
  The inputs at which the theorems below are evaluated: a constant source of randomness,
  configurations, options as run-time values, competitors with and without guardian,
  groups for the scoring engine, and a state of the redistribution loop.
\<close>

setup_lifting type_definition_unit_interval






definition plainCompetitor :: "string \<Rightarrow> Competitor" where
  "plainCompetitor i = \<lparr> idC = i, equipmentClass = Eq_HB, ageCategory = Age_A, gender = Gen_M,
     guardianId = None \<rparr>"

definition dependentOf :: "string \<Rightarrow> string \<Rightarrow> Competitor" where
  "dependentOf g i = \<lparr> idC = i, equipmentClass = Eq_HB, ageCategory = Age_C, gender = Gen_M,
     guardianId = Some g \<rparr>"

definition fiveSingles :: "Competitor list" where
  "fiveSingles = [plainCompetitor ''001'', plainCompetitor ''002'', plainCompetitor ''003'',
     plainCompetitor ''004'', plainCompetitor ''005'']"

definition twoFamilies :: "Competitor list" where
  "twoFamilies = [plainCompetitor ''001'', dependentOf ''001'' ''002'', dependentOf ''001'' ''003'',
     plainCompetitor ''004'', dependentOf ''004'' ''005'']"

definition minThree :: PartialOptions where
  "minThree = noOptions\<lparr> p_minSubsetSize := Some 3 \<rparr>"

definition customTestOptions :: PartialOptions where
  "customTestOptions = noOptions\<lparr> p_preferredSubsetSize := Some 5, p_minSubsetSize := Some 3,
     p_maxSubsetSize := Some 6 \<rparr>"

text \<open>Three groups of male competitors with the same equipment class.\<close>

definition entrant :: "string \<Rightarrow> AgeGroup \<Rightarrow> Competitor" where
  "entrant i a = \<lparr> idC = i, equipmentClass = Eq_HB, ageCategory = a, gender = Gen_M,
     guardianId = None \<rparr>"

definition soloGroup :: "Competitor list" where
  "soloGroup = [entrant ''001'' Age_A]"

definition mixedGroup :: "Competitor list" where
  "mixedGroup = [entrant ''002'' Age_A, entrant ''003'' Age_C, entrant ''004'' Age_J]"

definition pairedGroup :: "Competitor list" where
  "pairedGroup = [entrant ''005'' Age_A, entrant ''006'' Age_A, entrant ''007'' Age_C]"

text \<open>
  The options \<^verbatim>\<open>{ minSubsetSize: NaN }\<close>, \<^verbatim>\<open>{ minSubsetSize: undefined }\<close>,
  \<^verbatim>\<open>{ minSubsetSize: 0 }\<close> and \<^verbatim>\<open>{ maxSubsets: 0 }\<close>.
\<close>

definition noRawOptions :: RawOptions where
  "noRawOptions = \<lparr> raw_minSubsetSize = None, raw_maxSubsetSize = None,
     raw_preferredSubsetSize = None \<rparr>"

definition minNaN :: RawOptions where
  "minNaN = noRawOptions\<lparr> raw_minSubsetSize := Some (Number NaN) \<rparr>"

definition minUndefined :: RawOptions where
  "minUndefined = noRawOptions\<lparr> raw_minSubsetSize := Some Undefined \<rparr>"

definition minZero :: RawOptions where
  "minZero = noRawOptions\<lparr> raw_minSubsetSize := Some (Number (Num 0)) \<rparr>"



definition danglingDependent :: Competitor where
  "danglingDependent = dependentOf ''999'' ''001''"

definition emptyGuardianId :: Competitor where
  "emptyGuardianId = \<lparr> idC = ''001'', equipmentClass = Eq_HB, ageCategory = Age_C,
     gender = Gen_M, guardianId = Some [] \<rparr>"

definition singleFamily :: "string \<Rightarrow> FamilyFeatures" where
  "singleFamily i = \<lparr> family = [plainCompetitor i],
     features = [Num 1, Num 1, Num 1, Num 0], clusterId = 0 \<rparr>"

definition fullCluster :: ClusterCenter where
  "fullCluster = \<lparr> centerId = 0, centerFeatures = [Num 1, Num 1, Num 1, Num 0],
     members = [singleFamily ''001'', singleFamily ''002'', singleFamily ''003'',
                singleFamily ''004''] \<rparr>"

section \<open>Properties of the sanitizer\<close>

lemma mergeOptions_sel [simp]:
  "minSubsetSize (mergeOptions d p) =
     (case p_minSubsetSize p of None \<Rightarrow> minSubsetSize d | Some v \<Rightarrow> v)"
  "maxSubsetSize (mergeOptions d p) =
     (case p_maxSubsetSize p of None \<Rightarrow> maxSubsetSize d | Some v \<Rightarrow> v)"
  "preferredSubsetSize (mergeOptions d p) =
     (case p_preferredSubsetSize p of None \<Rightarrow> preferredSubsetSize d | Some v \<Rightarrow> v)"
  "maxSubsets (mergeOptions d p) =
     (case p_maxSubsets p of None \<Rightarrow> maxSubsets d | Some v \<Rightarrow> v)"
  by (simp_all add: mergeOptions_def)

lemma whole_minSubsetSize_at_least_two:
  "2 \<le> minSubsetSize (validateAndSanitizeOptions options n)
   \<and> minSubsetSize (validateAndSanitizeOptions options n) =
       max 2 (min (minSubsetSize (mergeOptions DEFAULT_OPTIONS options))
                  (maxSubsetSize (mergeOptions DEFAULT_OPTIONS options)))
   \<and> minSubsetSize (validateAndSanitizeOptions options n)
       \<le> maxSubsetSize (raiseMaximum (raiseMinimum (swapIfInverted
             (mergeOptions DEFAULT_OPTIONS options))))"
  by (simp add: validateAndSanitizeOptions_def smallBatchRule_def clampPreferred_def
      raiseMaximum_def raiseMinimum_def swapIfInverted_def Let_def)

subsection \<open>Run-time values\<close>

text \<open>
  On options whose sizes are whole numbers the sanitizer on run-time values computes what
  the sanitizer on integers computes, statement by statement.
\<close>

lemmas sanitize_js_defs = validateAndSanitizeOptions_js_def smallBatchRule_js_def
  clampPreferred_js_def raiseMaximum_js_def raiseMinimum_js_def swapIfInverted_js_def Let_def

lemma js_min2_Num [simp]: "js_min2 (Num a) (Num b) = Num (min a b)"
  by (simp add: min_def)

lemma rawSizesOf_sel [simp]:
  "rawMin (rawSizesOf s) = wholeNumber (minSubsetSize s)"
  "rawMax (rawSizesOf s) = wholeNumber (maxSubsetSize s)"
  "rawPreferred (rawSizesOf s) = wholeNumber (preferredSubsetSize s)"
  by (simp_all add: rawSizesOf_def)

lemma toNumber_wholeNumber [simp]: "toNumber (wholeNumber i) = Num (real_of_int i)"
  by (simp add: wholeNumber_def)

lemma rawSizesOf_update [simp]:
  "(rawSizesOf s)\<lparr> rawMin := wholeNumber a \<rparr> = rawSizesOf (s\<lparr> minSubsetSize := a \<rparr>)"
  "(rawSizesOf s)\<lparr> rawMax := wholeNumber a \<rparr> = rawSizesOf (s\<lparr> maxSubsetSize := a \<rparr>)"
  "(rawSizesOf s)\<lparr> rawPreferred := wholeNumber a \<rparr> = rawSizesOf (s\<lparr> preferredSubsetSize := a \<rparr>)"
  by (simp_all add: rawSizesOf_def)

lemma mergeOptions_js_whole:
  "mergeOptions_js rawDefaults (rawOptionsOf p) = rawSizesOf (mergeOptions DEFAULT_OPTIONS p)"
  by (simp add: mergeOptions_js_def rawDefaults_def rawOptionsOf_def rawSizesOf_def wholeNumber_def
      mergeOptions_def split: option.splits)

lemma swapIfInverted_js_whole: "swapIfInverted_js (rawSizesOf s) = rawSizesOf (swapIfInverted s)"
  by (simp add: swapIfInverted_js_def swapIfInverted_def js_gt_def)

lemma raiseMinimum_js_whole: "raiseMinimum_js (rawSizesOf s) = rawSizesOf (raiseMinimum s)"
  using rawSizesOf_update(1)[where s = s and a = 2]
  by (simp add: raiseMinimum_js_def raiseMinimum_def wholeNumber_def del: rawSizesOf_update)

lemma raiseMaximum_js_whole: "raiseMaximum_js (rawSizesOf s) = rawSizesOf (raiseMaximum s)"
  by (simp add: raiseMaximum_js_def raiseMaximum_def)

lemma clampPreferred_js_whole: "clampPreferred_js (rawSizesOf s) = rawSizesOf (clampPreferred s)"
  by (simp add: clampPreferred_js_def clampPreferred_def js_gt_def Let_def)

lemma smallBatchRule_js_whole: "smallBatchRule_js n (rawSizesOf s) = rawSizesOf (smallBatchRule n s)"
  using rawSizesOf_update(2)[where s = s and a = "min (maxSubsetSize s) 4"]
  by (simp add: smallBatchRule_js_def smallBatchRule_def wholeNumber_def min_def
      del: rawSizesOf_update)

lemma sanitizer_agrees_on_whole_numbers:
  "validateAndSanitizeOptions_js (rawOptionsOf p) n = rawSizesOf (validateAndSanitizeOptions p n)"
  by (simp only: validateAndSanitizeOptions_js_def validateAndSanitizeOptions_def
      mergeOptions_js_whole swapIfInverted_js_whole raiseMinimum_js_whole raiseMaximum_js_whole
      clampPreferred_js_whole smallBatchRule_js_whole)

lemma rawMin_sanitized:
  "rawMin (validateAndSanitizeOptions_js options n)
     = rawMin (raiseMinimum_js (swapIfInverted_js (mergeOptions_js rawDefaults options)))"
  by (simp add: sanitize_js_defs)

lemma js_ge_two_cases:
  "x \<noteq> NaN \<Longrightarrow> js_ge (if js_lt x (Num 2) then Num 2 else x) (Num 2)"
  by (cases x) auto

text \<open>
  C9. The sanitizer at \<^verbatim>\<open>{ minSubsetSize: NaN }\<close> and at
  \<^verbatim>\<open>{ minSubsetSize: undefined }\<close>, with five entities: the present key replaces the
  default 2, both \<^verbatim>\<open>minSubsetSize > maxSubsetSize\<close> and \<^verbatim>\<open>minSubsetSize < 2\<close> are
  false, and the value comes back as it went in. The sanitized minimum subset size is not
  at least 2.
\<close>

theorem sanitized_minSubsetSize_not_a_number:
  "rawMin (validateAndSanitizeOptions_js minNaN 5) = Number NaN
   \<and> rawMin (validateAndSanitizeOptions_js minUndefined 5) = Undefined
   \<and> \<not> js_ge (toNumber (rawMin (validateAndSanitizeOptions_js minNaN 5))) (Num 2)
   \<and> \<not> js_ge (toNumber (rawMin (validateAndSanitizeOptions_js minUndefined 5))) (Num 2)"
  by (simp add: sanitize_js_defs mergeOptions_js_def rawDefaults_def minNaN_def minUndefined_def
      noRawOptions_def DEFAULT_OPTIONS_def js_gt_def)

text \<open>
  For every other options object the sanitizer does establish the bound: whenever
  \<^verbatim>\<open>minSubsetSize\<close> is absent or holds a number other than \<open>NaN\<close> (whatever the
  other keys hold), the sanitized minimum subset size is at least 2. In particular this
  is so for all options with whole-number sizes, where it is the smaller of the two
  configured bounds, raised to 2 when that is 0 or 1 (or anything below 2), and where the
  statement that follows in the source then raises the maximum to the minimum if needed.
\<close>

theorem sanitized_minSubsetSize_at_least_two_for_numbers:
  assumes "raw_minSubsetSize options \<noteq> Some Undefined"
    and "raw_minSubsetSize options \<noteq> Some (Number NaN)"
  shows "js_ge (toNumber (rawMin (validateAndSanitizeOptions_js options n))) (Num 2)
    \<and> 2 \<le> minSubsetSize (validateAndSanitizeOptions wholeOptions n)
    \<and> minSubsetSize (validateAndSanitizeOptions wholeOptions n) =
        max 2 (min (minSubsetSize (mergeOptions DEFAULT_OPTIONS wholeOptions))
                   (maxSubsetSize (mergeOptions DEFAULT_OPTIONS wholeOptions)))
    \<and> minSubsetSize (validateAndSanitizeOptions wholeOptions n)
        \<le> maxSubsetSize (raiseMaximum (raiseMinimum (swapIfInverted
              (mergeOptions DEFAULT_OPTIONS wholeOptions))))"
proof -
  let ?m = "mergeOptions_js rawDefaults options"
  have m: "toNumber (rawMin ?m) \<noteq> NaN"
    using assms
    by (cases "raw_minSubsetSize options")
       (auto simp: mergeOptions_js_def rawDefaults_def elim: toNumber.elims)
  have s: "toNumber (rawMin (swapIfInverted_js ?m)) \<noteq> NaN"
  proof (cases "js_gt (toNumber (rawMin ?m)) (toNumber (rawMax ?m))")
    case True
    then have "toNumber (rawMax ?m) \<noteq> NaN"
      by (cases "toNumber (rawMin ?m)"; cases "toNumber (rawMax ?m)") (auto simp: js_gt_def)
    with True show ?thesis by (simp add: swapIfInverted_js_def)
  next
    case False
    with m show ?thesis by (simp add: swapIfInverted_js_def)
  qed
  have "js_ge (toNumber (rawMin (validateAndSanitizeOptions_js options n))) (Num 2)"
    unfolding rawMin_sanitized raiseMinimum_js_def
    using js_ge_two_cases[OF s] by (simp split: if_splits)
  with whole_minSubsetSize_at_least_two[of wholeOptions n] show ?thesis by blast
qed

text \<open>
  The bound at \<^verbatim>\<open>{ minSubsetSize: 0 }\<close> with five entities; the sanitized minimum
  is 2.
\<close>

theorem sanitized_minSubsetSize_at_least_two_example:
  "raw_minSubsetSize minZero \<noteq> Some Undefined \<and> raw_minSubsetSize minZero \<noteq> Some (Number NaN)
   \<and> rawMin (validateAndSanitizeOptions_js minZero 5) = Number (Num 2)
   \<and> js_ge (toNumber (rawMin (validateAndSanitizeOptions_js minZero 5))) (Num 2)"
proof -
  have h: "raw_minSubsetSize minZero \<noteq> Some Undefined"
    "raw_minSubsetSize minZero \<noteq> Some (Number NaN)"
    by (simp_all add: minZero_def noRawOptions_def)
  have v: "rawMin (validateAndSanitizeOptions_js minZero 5) = Number (Num 2)"
    by (simp add: sanitize_js_defs mergeOptions_js_def rawDefaults_def minZero_def
        noRawOptions_def DEFAULT_OPTIONS_def js_gt_def)
  from sanitized_minSubsetSize_at_least_two_for_numbers[OF h, of 5] h v show ?thesis by simp
qed

subsection \<open>The preferred size\<close>

text \<open>
  C5. The options of the repository's own test "constraint validation with custom options",
  \<^verbatim>\<open>{ preferredSubsetSize: 5, minSubsetSize: 3, maxSubsetSize: 6 }\<close>, with the 24
  competitors of its medium data set: the preferred size is clamped into \<open>[3, 6]\<close> first
  and the maximum is lowered to 4 afterwards, so the sanitized preferred size 5 lies above
  the sanitized maximum 4.
\<close>

theorem sanitized_preferred_above_maximum:
  "validateAndSanitizeOptions customTestOptions 24
     = DEFAULT_OPTIONS\<lparr> minSubsetSize := 3, maxSubsetSize := 4, preferredSubsetSize := 5 \<rparr>
   \<and> maxSubsetSize (validateAndSanitizeOptions customTestOptions 24)
       < preferredSubsetSize (validateAndSanitizeOptions customTestOptions 24)"
  by (simp add: validateAndSanitizeOptions_def smallBatchRule_def clampPreferred_def
      raiseMaximum_def raiseMinimum_def swapIfInverted_def Let_def mergeOptions_def
      noOptions_def DEFAULT_OPTIONS_def customTestOptions_def)

section \<open>Properties of the scoring engine\<close>

lemma js_max2_right_commute: "js_max2 (js_max2 a b) c = js_max2 (js_max2 a c) b"
  by (cases a; cases b; cases c) auto

lemma map_of_bumpCount:
  "map_of (bumpCount k al) = (map_of al)(k \<mapsto> (case map_of al k of None \<Rightarrow> 1 | Some c \<Rightarrow> c + 1))"
  by (induction al) (auto simp: fun_eq_iff)

lemma keys_bumpCount:
  "map fst (bumpCount k al) = (if k \<in> set (map fst al) then map fst al else map fst al @ [k])"
  by (induction al) (force split: if_splits)+

lemma distinct_bumpCount: "distinct (map fst al) \<Longrightarrow> distinct (map fst (bumpCount k al))"
  by (simp add: keys_bumpCount)

lemma countBy_snoc: "countBy f (xs @ [x]) = bumpCount (f x) (countBy f xs)"
  by (simp add: countBy_def)

lemma distinct_countBy: "distinct (map fst (countBy f xs))"
  by (induction xs rule: rev_induct) (simp_all add: countBy_snoc distinct_bumpCount, simp add: countBy_def)

lemma map_of_countBy:
  "map_of (countBy f xs) k =
     (if k \<in> f ` set xs then Some (count (mset (map f xs)) k) else None)"
proof (induction xs rule: rev_induct)
  case Nil
  then show ?case by (simp add: countBy_def)
next
  case (snoc x xs)
  then show ?case by (auto simp: countBy_snoc map_of_bumpCount count_eq_zero_iff)
qed

lemma countBy_mset:
  assumes "mset xs = mset ys"
  shows "mset (countBy f xs) = mset (countBy f ys)"
proof -
  have d: "distinct (countBy f xs)" "distinct (countBy f ys)"
    using distinct_countBy[of f xs] distinct_countBy[of f ys] by (auto simp: distinct_map)
  have s: "set xs = set ys" using assms by (rule mset_eq_setD)
  have m: "mset (map f xs) = mset (map f ys)" using assms by simp
  have "set (countBy f xs) = set (countBy f ys)"
  proof (rule set_eqI)
    fix p :: "'b \<times> nat"
    obtain k c where p: "p = (k, c)" by (cases p)
    have "(p \<in> set (countBy f xs)) = (map_of (countBy f xs) k = Some c)"
      using distinct_countBy[of f xs] p by simp
    also have "\<dots> = (map_of (countBy f ys) k = Some c)"
      by (simp only: map_of_countBy s m)
    also have "\<dots> = (p \<in> set (countBy f ys))"
      using distinct_countBy[of f ys] p by simp
    finally show "(p \<in> set (countBy f xs)) = (p \<in> set (countBy f ys))" .
  qed
  with d show ?thesis by (simp add: set_eq_iff_mset_eq_distinct)
qed

lemma evenCountTotal_mset: "mset m = mset m' \<Longrightarrow> evenCountTotal m = evenCountTotal m'"
proof -
  assume a: "mset m = mset m'"
  have "evenCountTotal m = sum_mset (filter_mset (\<lambda>count. count mod 2 = 0) (image_mset snd (mset m)))" for m :: "('a \<times> nat) list"
    unfolding evenCountTotal_def by (simp flip: sum_mset_sum_list)
  with a show ?thesis by simp
qed

lemma maxCount_mset: "mset m = mset m' \<Longrightarrow> maxCount m = maxCount m'"
proof -
  assume "mset m = mset m'"
  then have "mset (map (\<lambda>kc. js_nat (snd kc)) m) = mset (map (\<lambda>kc. js_nat (snd kc)) m')"
    by simp
  then have "fold (\<lambda>x acc. js_max2 acc x) (map (\<lambda>kc. js_nat (snd kc)) m)
           = fold (\<lambda>x acc. js_max2 acc x) (map (\<lambda>kc. js_nat (snd kc)) m')"
    by (rule fold_multiset_equiv[rotated]) (simp add: fun_eq_iff js_max2_right_commute)
  then show ?thesis unfolding maxCount_def js_max_list_def by simp
qed

lemma length_mset_eq: "mset m = mset m' \<Longrightarrow> length m = length m'"
  by (rule mset_eq_length)

lemma groupTerms_mset:
  assumes "mset g = mset g'"
  shows "groupTerms opts g = groupTerms opts g'"
proof -
  note c = countBy_mset[OF assms]
  show ?thesis
    unfolding groupTerms_def Let_def
    by (simp add: mset_eq_length[OF assms] evenCountTotal_mset[OF c] maxCount_mset[OF c]
        mset_eq_length[OF c])
qed

lemma fold_scoreStep_within:
  "list_all2 (\<lambda>g g'. mset g = mset g') gs gs' \<Longrightarrow>
   fold (scoreStep opts) gs z = fold (scoreStep opts) gs' z"
proof (induction gs gs' arbitrary: z rule: list_all2_induct)
  case Nil
  then show ?case by simp
next
  case (Cons g gs g' gs')
  then show ?case by (simp add: scoreStep_def groupTerms_mset[of g g'])
qed

lemma mset_map_mset_eq:
  assumes "mset (map mset gs) = mset (map mset gs')"
  shows "\<exists>hs. mset hs = mset gs' \<and> list_all2 (\<lambda>g g'. mset g = mset g') gs hs"
  using assms
proof (induction gs arbitrary: gs')
  case Nil
  then show ?case by simp
next
  case (Cons g gs)
  have "mset g \<in># mset (map mset gs')"
    using Cons.prems by (metis list.set_intros(1) list.simps(9) set_mset_mset)
  then obtain g' where g': "g' \<in> set gs'" "mset g' = mset g" by auto
  then obtain as bs where sp: "gs' = as @ g' # bs" by (meson split_list)
  with Cons.prems g' have "mset (map mset gs) = mset (map mset (as @ bs))" by simp
  from Cons.IH[OF this] obtain hs where
    hs: "mset hs = mset (as @ bs)" "list_all2 (\<lambda>g g'. mset g = mset g') gs hs" by blast
  have "mset (g' # hs) = mset gs'" using hs(1) sp by simp
  moreover have "list_all2 (\<lambda>g g'. mset g = mset g') (g # gs) (g' # hs)"
    using hs(2) g'(2) by simp
  ultimately show ?case by blast
qed

lemma map_groupTerms_within:
  "list_all2 (\<lambda>g g'. mset g = mset g') gs hs \<Longrightarrow>
   map (groupTerms opts) gs = map (groupTerms opts) hs"
proof (induction gs hs rule: list_all2_induct)
  case Nil
  then show ?case by simp
next
  case (Cons g gs g' hs)
  then show ?case using groupTerms_mset[of g g' opts] by simp
qed

lemma mset_groupTerms:
  assumes "mset (map mset gs) = mset (map mset gs')"
  shows "mset (map (groupTerms opts) gs) = mset (map (groupTerms opts) gs')"
proof -
  from mset_map_mset_eq[OF assms] obtain hs where
    h: "mset hs = mset gs'" "list_all2 (\<lambda>g g'. mset g = mset g') gs hs" by blast
  have "mset (map (groupTerms opts) gs) = mset (map (groupTerms opts) hs)"
    by (simp add: map_groupTerms_within[OF h(2)])
  also have "\<dots> = mset (map (groupTerms opts) gs')"
    using h(1) by (metis mset_map)
  finally show ?thesis .
qed

text \<open>
  C8, as amended. The score and its breakdown do not depend on the order of the entities
  inside the groups: two partitions whose groups are, position by position, the same
  multisets of entities get the same total score and the same breakdown, for every
  configuration. When the groups themselves are permuted as well, the terms that the groups
  add to the four sums are the same terms, in another order.
\<close>

theorem calculateScore_member_order_invariant:
  "(list_all2 (\<lambda>g g'. mset g = mset g') gs gs' \<longrightarrow>
      calculateScore gs options = calculateScore gs' options)
   \<and> (mset (map mset hs) = mset (map mset hs') \<longrightarrow>
      mset (map (groupTerms opts) hs) = mset (map (groupTerms opts) hs'))"
proof (intro conjI impI)
  assume a: "list_all2 (\<lambda>g g'. mset g = mset g') gs gs'"
  show "calculateScore gs options = calculateScore gs' options"
    unfolding calculateScore_def Let_def
    by (simp add: fold_scoreStep_within[OF a] list_all2_lengthD[OF a])
next
  assume "mset (map mset hs) = mset (map mset hs')"
  then show "mset (map (groupTerms opts) hs) = mset (map (groupTerms opts) hs')"
    by (rule mset_groupTerms)
qed

text \<open>
  Witness for C8: two groups, the entities of the first in two different orders; three
  groups in two different orders.
\<close>

theorem calculateScore_member_order_invariant_witness:
  "list_all2 (\<lambda>g g'. mset g = mset g')
     [[entrant ''005'' Age_A, entrant ''006'' Age_A, entrant ''007'' Age_C], [entrant ''001'' Age_A]]
     [[entrant ''007'' Age_C, entrant ''005'' Age_A, entrant ''006'' Age_A], [entrant ''001'' Age_A]]
   \<and> calculateScore
       [[entrant ''005'' Age_A, entrant ''006'' Age_A, entrant ''007'' Age_C], [entrant ''001'' Age_A]]
       noOptions
     = calculateScore
       [[entrant ''007'' Age_C, entrant ''005'' Age_A, entrant ''006'' Age_A], [entrant ''001'' Age_A]]
       noOptions
   \<and> mset (map mset [soloGroup, mixedGroup, pairedGroup])
     = mset (map mset [soloGroup, pairedGroup, mixedGroup])
   \<and> mset (map (groupTerms DEFAULT_OPTIONS) [soloGroup, mixedGroup, pairedGroup])
     = mset (map (groupTerms DEFAULT_OPTIONS) [soloGroup, pairedGroup, mixedGroup])"
proof -
  have h: "list_all2 (\<lambda>g g'. mset g = mset g')
     [[entrant ''005'' Age_A, entrant ''006'' Age_A, entrant ''007'' Age_C], [entrant ''001'' Age_A]]
     [[entrant ''007'' Age_C, entrant ''005'' Age_A, entrant ''006'' Age_A], [entrant ''001'' Age_A]]"
    by simp
  have k: "mset (map mset [soloGroup, mixedGroup, pairedGroup])
     = mset (map mset [soloGroup, pairedGroup, mixedGroup])"
    by (simp add: add_mset_commute)
  from calculateScore_member_order_invariant[of
      "[[entrant ''005'' Age_A, entrant ''006'' Age_A, entrant ''007'' Age_C], [entrant ''001'' Age_A]]"
      "[[entrant ''007'' Age_C, entrant ''005'' Age_A, entrant ''006'' Age_A], [entrant ''001'' Age_A]]"
      noOptions "[soloGroup, mixedGroup, pairedGroup]" "[soloGroup, pairedGroup, mixedGroup]"
      DEFAULT_OPTIONS] h k
  show ?thesis by blast
qed

subsection \<open>The order of the groups\<close>

text \<open>
  Evaluation of the rounding operations on numerals, and of the terms of the three
  groups of the example: a group of one, a group of three with three age categories, a
  group of three with two. Their age terms are 10, \<^verbatim>\<open>(1/3)*10\<close> and
  \<^verbatim>\<open>(2/3)*10\<close>, in doubles 10, 3.3333333333333335 and 6.666666666666666.
\<close>

lemmas binary64_eval = binary64_def binade_def compute_floorlog roundTiesToEven_def Let_def
  power_int_minus

lemmas fl_defs = fl_add_def fl_sub_def fl_mul_def fl_div_def js_sub_def js_nat_def

lemma mergeOptions_noOptions: "mergeOptions DEFAULT_OPTIONS noOptions = DEFAULT_OPTIONS"
  by (simp add: mergeOptions_def noOptions_def)

lemma default_weights:
  "genderWeight DEFAULT_OPTIONS = 1" "ageCategoryWeight DEFAULT_OPTIONS = 1"
  "equipmentClassWeight DEFAULT_OPTIONS = 1"
  by (simp_all add: DEFAULT_OPTIONS_def)

lemma counts_soloGroup:
  "countBy gender soloGroup = [(Gen_M, 1)]"
  "countBy ageCategory soloGroup = [(Age_A, 1)]"
  "countBy equipmentClass soloGroup = [(Eq_HB, 1)]"
  by (simp_all add: countBy_def soloGroup_def entrant_def)

lemma counts_mixedGroup:
  "countBy gender mixedGroup = [(Gen_M, 3)]"
  "countBy ageCategory mixedGroup = [(Age_A, 1), (Age_C, 1), (Age_J, 1)]"
  "countBy equipmentClass mixedGroup = [(Eq_HB, 3)]"
  by (simp_all add: countBy_def mixedGroup_def entrant_def)

lemma counts_pairedGroup:
  "countBy gender pairedGroup = [(Gen_M, 3)]"
  "countBy ageCategory pairedGroup = [(Age_A, 2), (Age_C, 1)]"
  "countBy equipmentClass pairedGroup = [(Eq_HB, 3)]"
  by (simp_all add: countBy_def pairedGroup_def entrant_def)

lemma groupTerms_soloGroup:
  "groupTerms DEFAULT_OPTIONS soloGroup =
     \<lparr> sizeScore = Num 4, genderScore = Num 0, ageCategoryScore = Num 10,
       equipmentClassScore = Num 10 \<rparr>"
  unfolding groupTerms_def counts_soloGroup
  by (simp add: soloGroup_def DEFAULT_OPTIONS_def evenCountTotal_def maxCount_def js_max_list_def
      fl_sub_def fl_mul_def fl_div_def js_sub_def js_nat_def binary64_eval)

lemma groupTerms_mixedGroup:
  "groupTerms DEFAULT_OPTIONS mixedGroup =
     \<lparr> sizeScore = Num 8, genderScore = Num 0,
       ageCategoryScore = Num (3752999689475413 / 2 ^ 50), equipmentClassScore = Num 10 \<rparr>"
  unfolding groupTerms_def counts_mixedGroup
  by (simp add: mixedGroup_def DEFAULT_OPTIONS_def evenCountTotal_def maxCount_def js_max_list_def
      fl_sub_def fl_mul_def fl_div_def js_sub_def js_nat_def binary64_eval)

lemma groupTerms_pairedGroup:
  "groupTerms DEFAULT_OPTIONS pairedGroup =
     \<lparr> sizeScore = Num 8, genderScore = Num 0,
       ageCategoryScore = Num (3752999689475413 / 2 ^ 49), equipmentClassScore = Num 10 \<rparr>"
  unfolding groupTerms_def counts_pairedGroup
  by (simp add: pairedGroup_def DEFAULT_OPTIONS_def evenCountTotal_def maxCount_def js_max_list_def
      fl_sub_def fl_mul_def fl_div_def js_sub_def js_nat_def binary64_eval)

text \<open>
  The four sums after the loop. With the group of two age categories last, the age sum is
  \<^verbatim>\<open>(10 + 3.3333333333333335) + 6.666666666666666\<close>, which rounds to 20; with the
  last two groups swapped it is \<^verbatim>\<open>(10 + 6.666666666666666) + 3.3333333333333335\<close>,
  which rounds to 19.999999999999996.
\<close>

lemma sums_solo_mixed_paired:
  "fold (scoreStep DEFAULT_OPTIONS) [soloGroup, mixedGroup, pairedGroup] zeroScores =
     \<lparr> sizeScore = Num 20, genderScore = Num 0, ageCategoryScore = Num 20,
       equipmentClassScore = Num 30 \<rparr>"
  by (simp add: scoreStep_def groupTerms_soloGroup groupTerms_mixedGroup groupTerms_pairedGroup
      zeroScores_def fl_add_def binary64_eval)

lemma sums_solo_paired_mixed:
  "fold (scoreStep DEFAULT_OPTIONS) [soloGroup, pairedGroup, mixedGroup] zeroScores =
     \<lparr> sizeScore = Num 20, genderScore = Num 0,
       ageCategoryScore = Num (5629499534213119 / 2 ^ 48), equipmentClassScore = Num 30 \<rparr>"
  by (simp add: scoreStep_def groupTerms_soloGroup groupTerms_mixedGroup groupTerms_pairedGroup
      zeroScores_def fl_add_def binary64_eval)

lemma score_solo_mixed_paired:
  "calculateScore [soloGroup, mixedGroup, pairedGroup] noOptions =
     (Num (3283874728290987 / 2 ^ 47),
      \<lparr> sizeScore = Num (7505999378950827 / 2 ^ 50), genderScore = Num 0,
        ageCategoryScore = Num (7505999378950827 / 2 ^ 50), equipmentClassScore = Num 10 \<rparr>)"
  unfolding calculateScore_def Let_def mergeOptions_noOptions sums_solo_mixed_paired
  by (simp add: default_weights fl_defs binary64_eval)

lemma score_solo_paired_mixed:
  "calculateScore [soloGroup, pairedGroup, mixedGroup] noOptions =
     (Num (6567749456581973 / 2 ^ 48),
      \<lparr> sizeScore = Num (7505999378950827 / 2 ^ 50), genderScore = Num 0,
        ageCategoryScore = Num (7505999378950825 / 2 ^ 50), equipmentClassScore = Num 10 \<rparr>)"
  unfolding calculateScore_def Let_def mergeOptions_noOptions sums_solo_paired_mixed
  by (simp add: default_weights fl_defs binary64_eval)

text \<open>
  Counterexample to C8 as stated: the same three groups in two orders, default
  configuration. The age category score is 6.666666666666667 in one order and
  6.666666666666665 in the other, the total score 23.333333333333336 and
  23.333333333333332.
\<close>

theorem calculateScore_depends_on_group_order:
  "mset (map mset [soloGroup, mixedGroup, pairedGroup])
     = mset (map mset [soloGroup, pairedGroup, mixedGroup])
   \<and> ageCategoryScore (snd (calculateScore [soloGroup, mixedGroup, pairedGroup] noOptions))
       = Num (7505999378950827 / 2 ^ 50)
   \<and> ageCategoryScore (snd (calculateScore [soloGroup, pairedGroup, mixedGroup] noOptions))
       = Num (7505999378950825 / 2 ^ 50)
   \<and> fst (calculateScore [soloGroup, mixedGroup, pairedGroup] noOptions)
       = Num (3283874728290987 / 2 ^ 47)
   \<and> fst (calculateScore [soloGroup, pairedGroup, mixedGroup] noOptions)
       = Num (6567749456581973 / 2 ^ 48)
   \<and> calculateScore [soloGroup, mixedGroup, pairedGroup] noOptions
       \<noteq> calculateScore [soloGroup, pairedGroup, mixedGroup] noOptions"
  by (simp add: score_solo_mixed_paired score_solo_paired_mixed add_mset_commute)

subsection \<open>The partition without groups\<close>

lemma calculateScore_Nil:
  "calculateScore [] options =
     (NaN, \<lparr> sizeScore = NaN, genderScore = NaN, ageCategoryScore = NaN,
              equipmentClassScore = NaN \<rparr>)"
  by (simp add: calculateScore_def zeroScores_def fl_defs Let_def)

section \<open>Properties of the family grouper\<close>


lemma g2d_fold:
  "fold (\<lambda>competitor m.
        (case truthyGuardian competitor of
           None \<Rightarrow> m
         | Some g \<Rightarrow> m(g \<mapsto> (case m g of None \<Rightarrow> [] | Some ds \<Rightarrow> ds) @ [competitor])))
       cs m0 k =
    (let ds = filter (\<lambda>c. truthyGuardian c = Some k) cs in
     case m0 k of None \<Rightarrow> (if ds = [] then None else Some ds)
      | Some ds0 \<Rightarrow> Some (ds0 @ ds))"
  by (induction cs arbitrary: m0) (auto simp: Let_def split: option.splits)

lemma guardianToDependents_eq:
  "guardianToDependents cs k =
     (if filter (\<lambda>c. truthyGuardian c = Some k) cs = [] then None
      else Some (filter (\<lambda>c. truthyGuardian c = Some k) cs))"
  unfolding guardianToDependents_def by (simp add: g2d_fold Let_def)

lemma d2g_fold:
  "(fold (\<lambda>competitor m.
        (case truthyGuardian competitor of
           None \<Rightarrow> m
         | Some g \<Rightarrow> m(idC competitor \<mapsto> g)))
       cs m0 k \<noteq> None) =
    (m0 k \<noteq> None \<or> (\<exists>c\<in>set cs. idC c = k \<and> truthyGuardian c \<noteq> None))"
  by (induction cs arbitrary: m0) (auto split: option.splits)

lemma dependentToGuardian_iff:
  "(dependentToGuardian cs k \<noteq> None) = (\<exists>c\<in>set cs. idC c = k \<and> truthyGuardian c \<noteq> None)"
  unfolding dependentToGuardian_def using d2g_fold[of cs Map.empty k] by simp

lemma familiesLoop_members:
  "fam \<in> set (familiesLoop g2d d2g cs fams processed) \<Longrightarrow>
   fam \<in> set fams \<or>
   (\<exists>c\<in>set cs. (\<exists>deps. g2d (idC c) = Some deps \<and> fam = c # deps)
        \<or> (g2d (idC c) = None \<and> d2g (idC c) = None \<and> fam = [c]))"
proof (induction cs arbitrary: fams processed)
  case Nil
  then show ?case by simp
next
  case (Cons c cs)
  show ?case
  proof (cases "idC c \<in> processed")
    case True
    with Cons.prems have "fam \<in> set (familiesLoop g2d d2g cs fams processed)" by simp
    from Cons.IH[OF this] show ?thesis by auto
  next
    case False
    show ?thesis
    proof (cases "g2d (idC c)")
      case (Some deps)
      with False Cons.prems
      have "fam \<in> set (familiesLoop g2d d2g cs (fams @ [c # deps])
                (processed \<union> set (map idC (c # deps))))"
        by (simp add: Let_def)
      from Cons.IH[OF this] Some show ?thesis by auto
    next
      case None
      show ?thesis
      proof (cases "d2g (idC c) = None")
        case True
        with None False Cons.prems
        have "fam \<in> set (familiesLoop g2d d2g cs (fams @ [[c]]) (insert (idC c) processed))"
          by simp
        from Cons.IH[OF this] None True show ?thesis by auto
      next
        case nd: False
        with None False Cons.prems
        have "fam \<in> set (familiesLoop g2d d2g cs fams processed)" by auto
        from Cons.IH[OF this] show ?thesis by auto
      qed
    qed
  qed
qed

lemma createGuardianFamilies_members:
  assumes "fam \<in> set (createGuardianFamilies cs)"
  shows "\<exists>c\<in>set cs.
           (filter (\<lambda>d. truthyGuardian d = Some (idC c)) cs \<noteq> [] \<and>
              fam = c # filter (\<lambda>d. truthyGuardian d = Some (idC c)) cs)
         \<or> (filter (\<lambda>d. truthyGuardian d = Some (idC c)) cs = [] \<and>
              (\<forall>d\<in>set cs. idC d = idC c \<longrightarrow> truthyGuardian d = None) \<and> fam = [c])"
proof -
  from assms familiesLoop_members[of fam "guardianToDependents cs" "dependentToGuardian cs" cs "[]" "{}"]
  obtain c where c: "c \<in> set cs"
    and d: "(\<exists>deps. guardianToDependents cs (idC c) = Some deps \<and> fam = c # deps)
        \<or> (guardianToDependents cs (idC c) = None \<and> dependentToGuardian cs (idC c) = None \<and> fam = [c])"
    unfolding createGuardianFamilies_def by auto
  from d show ?thesis
  proof
    assume "\<exists>deps. guardianToDependents cs (idC c) = Some deps \<and> fam = c # deps"
    then show ?thesis using c by (auto simp: guardianToDependents_eq split: if_splits)
  next
    assume a: "guardianToDependents cs (idC c) = None \<and> dependentToGuardian cs (idC c) = None \<and> fam = [c]"
    then have "\<not> (dependentToGuardian cs (idC c) \<noteq> None)" by simp
    then have "\<forall>d\<in>set cs. idC d = idC c \<longrightarrow> truthyGuardian d = None"
      unfolding dependentToGuardian_iff by blast
    with a c show ?thesis by (auto simp: guardianToDependents_eq split: if_splits)
  qed
qed

lemma families_subset: "set (concat (createGuardianFamilies cs)) \<subseteq> set cs"
proof
  fix x assume "x \<in> set (concat (createGuardianFamilies cs))"
  then obtain fam where f: "fam \<in> set (createGuardianFamilies cs)" and x: "x \<in> set fam" by auto
  from createGuardianFamilies_members[OF f] x show "x \<in> set cs" by auto
qed


text \<open>
  C10, as amended. An entity with a non-empty guardian id that is the id of no entity of
  the input, and whose own id no entity names as guardian, is in no family that
  \<^verbatim>\<open>createGuardianFamilies\<close> returns; the union of the families is then a strict subset
  of the input.
\<close>

theorem unresolved_dependent_is_omitted:
  assumes "x \<in> set cs" "truthyGuardian x = Some g" "g \<notin> idC ` set cs"
    "\<forall>c \<in> set cs. truthyGuardian c \<noteq> Some (idC x)"
  shows "x \<notin> set (concat (createGuardianFamilies cs)) \<and> set (concat (createGuardianFamilies cs)) \<subset> set cs"
proof -
  have nx: "x \<notin> set (concat (createGuardianFamilies cs))"
  proof
    assume "x \<in> set (concat (createGuardianFamilies cs))"
    then obtain fam where f: "fam \<in> set (createGuardianFamilies cs)" and x: "x \<in> set fam" by auto
    from createGuardianFamilies_members[OF f] obtain c where c: "c \<in> set cs" and
      d: "(filter (\<lambda>d. truthyGuardian d = Some (idC c)) cs \<noteq> [] \<and>
              fam = c # filter (\<lambda>d. truthyGuardian d = Some (idC c)) cs)
         \<or> (filter (\<lambda>d. truthyGuardian d = Some (idC c)) cs = [] \<and>
              (\<forall>d\<in>set cs. idC d = idC c \<longrightarrow> truthyGuardian d = None) \<and> fam = [c])" by blast
    from d show False
    proof
      assume a: "filter (\<lambda>d. truthyGuardian d = Some (idC c)) cs \<noteq> [] \<and>
              fam = c # filter (\<lambda>d. truthyGuardian d = Some (idC c)) cs"
      from x a have "x = c \<or> truthyGuardian x = Some (idC c)" by auto
      then show False
      proof
        assume "x = c"
        with a have "filter (\<lambda>d. truthyGuardian d = Some (idC x)) cs \<noteq> []" by simp
        then obtain d where "d \<in> set cs" "truthyGuardian d = Some (idC x)"
          by (auto simp: filter_empty_conv)
        with assms(4) show False by blast
      next
        assume "truthyGuardian x = Some (idC c)"
        with assms(2) have "g = idC c" by simp
        with c assms(3) show False by blast
      qed
    next
      assume a: "filter (\<lambda>d. truthyGuardian d = Some (idC c)) cs = [] \<and>
              (\<forall>d\<in>set cs. idC d = idC c \<longrightarrow> truthyGuardian d = None) \<and> fam = [c]"
      with x have "x = c" by simp
      with a assms(1,2) show False by auto
    qed
  qed
  with families_subset[of cs] assms(1) show ?thesis by blast
qed

text \<open>
  Witness for C10: the single entity 001 whose guardian 999 is not in the input.
\<close>

theorem unresolved_dependent_is_omitted_witness:
  "danglingDependent \<in> set [danglingDependent]
   \<and> truthyGuardian danglingDependent = Some ''999''
   \<and> ''999'' \<notin> idC ` set [danglingDependent]
   \<and> danglingDependent \<notin> set (concat (createGuardianFamilies [danglingDependent]))
   \<and> set (concat (createGuardianFamilies [danglingDependent])) \<subset> set [danglingDependent]"
proof -
  have h: "danglingDependent \<in> set [danglingDependent]"
    "truthyGuardian danglingDependent = Some ''999''"
    "''999'' \<notin> idC ` set [danglingDependent]"
    "\<forall>c \<in> set [danglingDependent]. truthyGuardian c \<noteq> Some (idC danglingDependent)"
    by (simp_all add: danglingDependent_def dependentOf_def truthyGuardian_def)
  from unresolved_dependent_is_omitted[OF h] h show ?thesis by simp
qed


text \<open>
  Counterexample to C10 as stated: an entity whose guardian id is the empty string. The
  empty string is the id of no entity and nobody names the entity as guardian, yet the
  entity is not omitted: the source's \<^verbatim>\<open>if (competitor.guardianId)\<close> treats the empty
  string as no guardian, and the entity becomes a family of its own.
\<close>

theorem empty_guardian_id_is_kept:
  "guardianId emptyGuardianId = Some ''''
   \<and> '''' \<notin> idC ` set [emptyGuardianId]
   \<and> emptyGuardianId \<in> set (concat (createGuardianFamilies [emptyGuardianId]))
   \<and> set (concat (createGuardianFamilies [emptyGuardianId])) = set [emptyGuardianId]"
  by (simp add: createGuardianFamilies_def guardianToDependents_def dependentToGuardian_def
      emptyGuardianId_def truthyGuardian_def)


section \<open>Properties of the weighted distance\<close>









section \<open>Properties of the solvers\<close>

subsection \<open>Sanitized bounds; the features of a single entity\<close>










subsection \<open>Randomness: the shuffle is a permutation\<close>

lemma mathRandom_range: "0 \<le> mathRandom rnd k" "mathRandom rnd k < 1"
  using Rep_unit_interval[of "rnd k"] by (simp_all add: mathRandom_def)

lemma random_index_le: "nat \<lfloor>mathRandom rnd k * real (Suc i)\<rfloor> \<le> i"
proof -
  have "mathRandom rnd k * real (Suc i) < real (Suc i)"
    using mathRandom_range[of rnd k] by simp
  then have "\<lfloor>mathRandom rnd k * real (Suc i)\<rfloor> < int (Suc i)"
    by (simp add: floor_less_iff)
  then show ?thesis by simp
qed

lemma random_index_less:
  "0 < n \<Longrightarrow> nat \<lfloor>mathRandom rnd k * real n\<rfloor> < n"
  using random_index_le[of rnd k "n - 1"] by simp

lemma mset_swapAt: "i < length xs \<Longrightarrow> j < length xs \<Longrightarrow> mset (swapAt xs i j) = mset xs"
  unfolding swapAt_def by (simp add: mset_swap)

lemma length_swapAt [simp]: "length (swapAt xs i j) = length xs"
  by (simp add: swapAt_def)

lemma shuffle_fold_mset:
  "\<forall>i\<in>set is. i < length xs \<Longrightarrow>
   mset (fst (fold (\<lambda>i (res, k). (swapAt res i (nat \<lfloor>mathRandom rnd k * real (i + 1)\<rfloor>), k + 1)) is (xs, k)))
     = mset xs"
proof (induction "is" arbitrary: xs k)
  case Nil
  then show ?case by simp
next
  case (Cons i "is")
  define j where "j = nat \<lfloor>mathRandom rnd k * real (i + 1)\<rfloor>"
  have j: "j < length xs"
    using random_index_le[of rnd k i] Cons.prems by (simp add: j_def)
  have i: "i < length xs" using Cons.prems by simp
  have "mset (fst (fold (\<lambda>i (res, k). (swapAt res i (nat \<lfloor>mathRandom rnd k * real (i + 1)\<rfloor>), k + 1))
           is (swapAt xs i j, k + 1))) = mset (swapAt xs i j)"
    using Cons.prems by (intro Cons.IH) simp
  also have "\<dots> = mset xs" by (rule mset_swapAt[OF i j])
  finally show ?case by (simp add: j_def)
qed

lemma shuffle_mset: "mset (fst (shuffle rnd k xs)) = mset xs"
  unfolding shuffle_def by (rule shuffle_fold_mset) auto

subsection \<open>k-means with a single center\<close>

lemma nearestCenter_single: "nearestCenter fs [c] options fw = 0"
  by (simp add: nearestCenter_def Let_def)

lemma assign_fold_single:
  "fold (\<lambda>fam (ffs, cs).
             (let bestCluster = nearestCenter (features fam) cs options fw;
                  fam' = fam\<lparr> clusterId := int bestCluster \<rparr>
              in (ffs @ [fam'],
                  cs[bestCluster := (cs ! bestCluster)\<lparr> members := members (cs ! bestCluster) @ [fam'] \<rparr>])))
           fs (acc, [c])
   = (acc @ map (\<lambda>f. f\<lparr> clusterId := 0 \<rparr>) fs,
      [c\<lparr> members := members c @ map (\<lambda>f. f\<lparr> clusterId := 0 \<rparr>) fs \<rparr>])"
  by (induction fs arbitrary: acc c) (simp_all add: nearestCenter_single Let_def)

lemma assign_single:
  "assignToClusters ffs [c] options fw =
     Inr (map (\<lambda>f. f\<lparr> clusterId := 0 \<rparr>) ffs, [c\<lparr> members := map (\<lambda>f. f\<lparr> clusterId := 0 \<rparr>) ffs \<rparr>])"
  by (simp add: assignToClusters_def assign_fold_single)

lemma updateCenter_keeps [simp]:
  "members (fst (updateCenter c)) = members c" "centerId (fst (updateCenter c)) = centerId c"
  by (simp_all add: updateCenter_def Let_def)

lemma kmeans_single_aux:
  "centers = [c] \<Longrightarrow> iteration < maxIterations \<Longrightarrow>
   \<exists>c'. kmeansLoop iteration ffs centers options fw
          = Inr (map (\<lambda>f. f\<lparr> clusterId := 0 \<rparr>) ffs, [c'])
        \<and> members c' = map (\<lambda>f. f\<lparr> clusterId := 0 \<rparr>) ffs \<and> centerId c' = centerId c"
proof (induction iteration ffs centers options fw arbitrary: c rule: kmeansLoop.induct)
  case (1 iteration ffs centers options fw)
  let ?g = "\<lambda>f. f\<lparr> clusterId := (0::int) \<rparr>"
  let ?c1 = "c\<lparr> members := map ?g ffs \<rparr>"
  let ?c2 = "fst (updateCenter ?c1)"
  have a: "assignToClusters ffs centers options fw = Inr (map ?g ffs, [?c1])"
    using "1.prems"(1) by (simp add: assign_single)
  have u: "updateClusterCenters [?c1] = ([?c2], snd (updateCenter ?c1))"
    by (simp add: updateClusterCenters_def)
  show ?case
  proof (cases "snd (updateCenter ?c1)")
    case False
    then show ?thesis
      using "1.prems"(2) a u by (subst kmeansLoop.simps) simp
  next
    case True
    have step: "kmeansLoop iteration ffs centers options fw
        = kmeansLoop (iteration + 1) (map ?g ffs) [?c2] options fw"
      using "1.prems"(2) a u True by (subst kmeansLoop.simps) simp
    show ?thesis
    proof (cases "iteration + 1 < maxIterations")
      case True2: True
      have "\<exists>c'. kmeansLoop (iteration + 1) (map ?g ffs) (fst (updateClusterCenters [?c1])) options fw
          = Inr (map ?g (map ?g ffs), [c']) \<and> members c' = map ?g (map ?g ffs)
          \<and> centerId c' = centerId ?c2"
        using "1.prems"(2) a u True True2 by (intro "1.IH") simp_all
      then show ?thesis using step u by (auto simp: comp_def)
    next
      case False
      then have "kmeansLoop (iteration + 1) (map ?g ffs) [?c2] options fw = Inr (map ?g ffs, [?c2])"
        by (subst kmeansLoop.simps) simp
      then show ?thesis using step by simp
    qed
  qed
qed

lemma kmeans_single:
  "\<exists>c'. kmeansLoop 0 ffs [c] options fw = Inr (map (\<lambda>f. f\<lparr> clusterId := 0 \<rparr>) ffs, [c'])
        \<and> members c' = map (\<lambda>f. f\<lparr> clusterId := 0 \<rparr>) ffs \<and> centerId c' = centerId c"
  by (rule kmeans_single_aux) (simp_all add: maxIterations_def)


subsection \<open>The redistribution loop at the cap\<close>

lemma placeStep_stall:
  assumes "\<forall>fam\<in>set backlog. maxSubsetSize options < int (clusterSize (members (valid ! ci)) + length (family fam))"
  shows "placeStep options ci (valid, backlog, False) = (valid, backlog, False)"
proof -
  have "findLastFitting options (clusterSize (members (valid ! ci))) backlog = None"
    unfolding findLastFitting_def find_None_iff using assms by (auto simp: not_le)
  then show ?thesis by (simp add: Let_def)
qed

lemma place_fold_stall:
  assumes "\<forall>ci\<in>set idxs. \<forall>fam\<in>set backlog.
     maxSubsetSize options < int (clusterSize (members (valid ! ci)) + length (family fam))"
  shows "fold (placeStep options) idxs (valid, backlog, False) = (valid, backlog, False)"
  using assms by (induction idxs) (simp_all add: placeStep_stall del: placeStep.simps)

lemma redistributePass_stall:
  assumes "effectiveMaxSubsets \<le> int (length valid)"
    and "\<forall>center\<in>set valid. \<forall>fam\<in>set backlog.
       maxSubsetSize options < int (clusterSize (members center) + length (family fam))"
  shows "redistributePass options effectiveMaxSubsets (valid, backlog) = Inr (valid, backlog)"
proof -
  have "fold (placeStep options) [0..<length valid] (valid, backlog, False) = (valid, backlog, False)"
    by (rule place_fold_stall) (use assms(2) in auto)
  then show ?thesis using assms(1) by (simp add: redistributePass_def)
qed

lemma redistributeLoop_not_fixed:
  assumes "redistributeLoop options effectiveMaxSubsets st = Some y"
  shows "\<not> (snd st \<noteq> [] \<and> redistributePass options effectiveMaxSubsets st = Inr st)"
proof (rule redistributeLoop.raw_induct[where P = "\<lambda>options effectiveMaxSubsets st y.
         \<not> (snd st \<noteq> [] \<and> redistributePass options effectiveMaxSubsets st = Inr st)",
       OF _ assms])
  fix f :: "PartitionOptions \<Rightarrow> int \<Rightarrow> ClusterCenter list \<times> FamilyFeatures list
     \<Rightarrow> (error + ClusterCenter list) option"
  fix opts e s r
  assume IH: "\<And>opts e s r. f opts e s = Some r \<Longrightarrow>
     \<not> (snd s \<noteq> [] \<and> redistributePass opts e s = Inr s)"
  assume eq: "(if snd s = [] then Some (Inr (fst s))
      else case redistributePass opts e s of
           Inl e \<Rightarrow> Some (Inl e)
           | Inr st' \<Rightarrow> f opts e st') = Some r"
  show "\<not> (snd s \<noteq> [] \<and> redistributePass opts e s = Inr s)"
  proof
    assume a: "snd s \<noteq> [] \<and> redistributePass opts e s = Inr s"
    with eq have "f opts e s = Some r" by simp
    from IH[OF this] a show False by simp
  qed
qed

lemma redistributeLoop_fixed_state:
  assumes "snd st \<noteq> []" "redistributePass options effectiveMaxSubsets st = Inr st"
  shows "redistributeLoop options effectiveMaxSubsets st = None"
  using redistributeLoop_not_fixed[of options effectiveMaxSubsets st] assms
  by (cases "redistributeLoop options effectiveMaxSubsets st") auto

lemma redistributeLoop_stalls:
  assumes "backlog \<noteq> []" "effectiveMaxSubsets \<le> int (length valid)"
    and "\<forall>center\<in>set valid. \<forall>fam\<in>set backlog.
       maxSubsetSize options < int (clusterSize (members center) + length (family fam))"
  shows "redistributeLoop options effectiveMaxSubsets (valid, backlog) = None"
  by (rule redistributeLoop_fixed_state)
     (simp_all add: assms(1) redistributePass_stall[OF assms(2,3)])

subsection \<open>A single entity\<close>

lemma init_one_center:
  assumes "ffs \<noteq> []" "numClusters \<le> 1"
  shows "\<exists>c. initializeClusterCenters rnd k ffs numClusters = Inr ([c], k + 1) \<and> centerId c = 0"
  using assms by (simp add: initializeClusterCenters_def Let_def)






lemma mergeOptions_asPartial [simp]: "mergeOptions d (asPartial s) = s"
  by (simp add: mergeOptions_def asPartial_def)

lemma js_max_list_single [simp]: "js_max_list [Num a] = Num a"
  by (simp add: js_max_list_def)

text \<open>
  With a single family to choose from, the scan of \<^verbatim>\<open>solveGreedy\<close> either picks it or
  picks nothing (when its score is not above \<^verbatim>\<open>-Infinity\<close>); in the second case the
  family is placed by the second pass, in the same subset.
\<close>

lemma validArrayLength_small [simp]: "validArrayLength 0" "validArrayLength 1"
  by (simp_all add: validArrayLength_def maxArrayLength_def)






lemma sanitize_minThree:
  "validateAndSanitizeOptions minThree 5 = DEFAULT_OPTIONS\<lparr> minSubsetSize := 3, maxSubsetSize := 4 \<rparr>"
  by (simp add: validateAndSanitizeOptions_def smallBatchRule_def clampPreferred_def
      raiseMaximum_def raiseMinimum_def swapIfInverted_def Let_def mergeOptions_def
      noOptions_def DEFAULT_OPTIONS_def minThree_def)













subsection \<open>Empty input\<close>

text \<open>
  C4. What the code does on the partition with no group: \<^verbatim>\<open>calculateScore\<close> returns
  \<open>NaN\<close>, not 0, as total score and in all four entries of the breakdown (each is
  \<^verbatim>\<open>0/0\<close>, times a weight; the division by the number of groups is not guarded). \<^verbatim>\<open>solveMIP\<close> and \<^verbatim>\<open>solveClustering\<close> return on empty input without
  throwing; their result, and that of the empty-input branch of \<^verbatim>\<open>solveMIPWithLP\<close>,
  has no group and the score \<open>NaN\<close>.
\<close>

theorem empty_partition_score_is_NaN:
  "calculateScore [] options =
     (NaN, \<lparr> sizeScore = NaN, genderScore = NaN, ageCategoryScore = NaN,
              equipmentClassScore = NaN \<rparr>)
   \<and> solveMIP [] options = Inr (handleEmptyDataset options ''Mixed Integer Programming'')
   \<and> solveClustering rnd [] options = Some (Inr (handleEmptyDataset options ''K-means Clustering''))
   \<and> subsets (result (handleEmptyDataset options algorithmName)) = []
   \<and> score (result (handleEmptyDataset options algorithmName)) = NaN
   \<and> subsets (result (solveMIPWithLP_empty options)) = []
   \<and> score (result (solveMIPWithLP_empty options)) = NaN"
  by (simp add: calculateScore_Nil handleEmptyDataset_def createPartitionResult_def solveMIP_def
      solveClustering_def solveMIPWithLP_empty_def)


subsection \<open>Non-termination of the redistribution loop\<close>

text \<open>
  C3. When the backlog is not empty, the number of groups has reached the cap and no
  family of the backlog fits any group, a round of the redistribution loop leaves groups
  and backlog as they are, and the loop never ends: the forced placement sits inside the
  branch that is only entered below the cap.
\<close>

theorem redistribution_stalls_at_the_cap:
  assumes "backlog \<noteq> []"
    and "effectiveMaxSubsets \<le> int (length valid)"
    and "\<forall>center\<in>set valid. \<forall>fam\<in>set backlog.
       maxSubsetSize options < int (clusterSize (members center) + length (family fam))"
  shows "redistributePass options effectiveMaxSubsets (valid, backlog) = Inr (valid, backlog)
    \<and> redistributeLoop options effectiveMaxSubsets (valid, backlog) = None"
  using redistributePass_stall[OF assms(2,3)] redistributeLoop_stalls[OF assms] by simp


text \<open>
  Witness for C3: a full group of four single competitors, one more single competitor in
  the backlog, cap 1, sizes 3 to 4.
\<close>

theorem redistribution_stalls_at_the_cap_witness:
  "redistributeLoop (validateAndSanitizeOptions minThree 5) 1
     ([fullCluster], [singleFamily ''005'']) = None"
proof -
  have "redistributePass (validateAndSanitizeOptions minThree 5) 1 ([fullCluster], [singleFamily ''005''])
           = Inr ([fullCluster], [singleFamily ''005''])
      \<and> redistributeLoop (validateAndSanitizeOptions minThree 5) 1
           ([fullCluster], [singleFamily ''005'']) = None"
    by (rule redistribution_stalls_at_the_cap)
       (simp_all add: sanitize_minThree fullCluster_def singleFamily_def clusterSize_def)
  then show ?thesis by simp
qed

subsection \<open>Inputs on which solveClustering does not return\<close>

lemma families_five:
  "createGuardianFamilies fiveSingles = map (\<lambda>c. [c]) fiveSingles"
  by (simp add: createGuardianFamilies_def guardianToDependents_def dependentToGuardian_def
      fiveSingles_def plainCompetitor_def truthyGuardian_def)

lemma families_two:
  "createGuardianFamilies twoFamilies =
     [[plainCompetitor ''001'', dependentOf ''001'' ''002'', dependentOf ''001'' ''003''],
      [plainCompetitor ''004'', dependentOf ''004'' ''005'']]"
  by (simp add: createGuardianFamilies_def guardianToDependents_def dependentToGuardian_def
      twoFamilies_def plainCompetitor_def dependentOf_def truthyGuardian_def)

lemma numClusters_five:
  "numClustersFor (DEFAULT_OPTIONS\<lparr> minSubsetSize := 3, maxSubsetSize := 4 \<rparr>) 5 5 = 1"
  "numClustersFor (DEFAULT_OPTIONS\<lparr> minSubsetSize := 3, maxSubsetSize := 4 \<rparr>) 5 2 = 1"
  by (simp_all add: numClustersFor_def DEFAULT_OPTIONS_def round_def Let_def)

lemma createFamilyFeatures_ok:
  assumes "\<forall>fam\<in>set families. fam \<noteq> []"
  shows "\<exists>ffs. createFamilyFeatures families cs = Inr ffs \<and> map family ffs = families"
  using assms
proof (induction families)
  case Nil
  then show ?case by (simp add: createFamilyFeatures_def)
next
  case (Cons fam families)
  then obtain ffs where ffs: "createFamilyFeatures families cs = Inr ffs" "map family ffs = families"
    by auto
  from Cons.prems obtain c rest where "fam = c # rest" by (cases fam) auto
  with ffs show ?case
    by (simp add: createFamilyFeatures_def Let_def)
qed

lemma list5:
  assumes "length sh = 5"
  obtains a b c d e where "sh = [a, b, c, d, e]"
proof -
  from assms obtain a r1 where 1: "sh = a # r1" "length r1 = 4" by (cases sh) auto
  then obtain b r2 where 2: "r1 = b # r2" "length r2 = 3" by (cases r1) auto
  then obtain c r3 where 3: "r2 = c # r3" "length r3 = 2" by (cases r2) auto
  then obtain d r4 where 4: "r3 = d # r4" "length r4 = 1" by (cases r3) auto
  then obtain e where 5: "r4 = [e]" by (cases r4) auto
  from 1 2 3 4 5 that show thesis by simp
qed

lemma split_five_singles:
  assumes "length sh = 5" "\<forall>f\<in>set sh. length (family f) = 1"
    "minSubsetSize opts = 3" "maxSubsetSize opts = 4"
  shows "\<exists>a b. fold (splitStep opts cf) sh ([], 0, [], []) = ([a], 1, [b], [])
     \<and> length (family a) = 1 \<and> clusterSize (members b) = 4"
proof -
  from assms(1) obtain a b c d e where sh: "sh = [a, b, c, d, e]"
    by (rule list5)
  with assms(2-) show ?thesis by (simp add: clusterSize_def)
qed


lemma shuffle_obtain:
  obtains sh k' where "shuffle rnd k ms = (sh, k')" "mset sh = mset ms"
  using shuffle_mset[of rnd k ms] by (cases "shuffle rnd k ms") auto

lemma clusterSize_singles:
  "\<forall>f\<in>set ms. length (family f) = 1 \<Longrightarrow> clusterSize ms = length ms"
  by (induction ms) (simp_all add: clusterSize_def)

lemma list2:
  assumes "length sh = 2"
  obtains x y where "sh = [x, y]"
proof -
  from assms obtain a r1 where 1: "sh = a # r1" "length r1 = 1" by (cases sh) auto
  then obtain b where 2: "r1 = [b]" by (cases r1) auto
  from 1 2 that show thesis by simp
qed

lemma two_element_mset:
  assumes "mset [x, y] = mset [a, b]"
  shows "[x, y] = [a, b] \<or> [x, y] = [b, a]"
proof -
  from assms have "set [x, y] = set [a, b]" by (rule mset_eq_setD)
  then have "x = a \<or> x = b" by auto
  then show ?thesis
  proof
    assume xa: "x = a"
    with assms have "mset [y] = mset [b]" by simp
    then have "y = b" by simp
    with xa show ?thesis by simp
  next
    assume xb: "x = b"
    with assms have "add_mset b (mset [y]) = add_mset b (mset [a])" by (simp add: add_mset_commute)
    then have "mset [y] = mset [a]" by (simp only: add_mset_add_mset_same_iff)
    then have "y = a" by simp
    with xb show ?thesis by simp
  qed
qed


lemma classify_oversized:
  assumes "members c1 \<noteq> []" "maxSubsetSize opts < int (clusterSize (members c1))"
    "shuffle rnd k (members c1) = (sh, k')"
    "fold (splitStep opts (centerFeatures c1)) sh ([], 0, [], []) = (cur, curSize, valid', redis')"
  shows "fold (classifyCenter rnd opts) [c1] ([], [], k) =
     (if cur \<noteq> []
      then (if int curSize \<ge> minSubsetSize opts
            then (valid' @ [\<lparr> centerId = length valid', centerFeatures = centerFeatures c1,
                               members = cur \<rparr>], redis', k')
            else (valid', redis' @ cur, k'))
      else (valid', redis', k'))"
  using assms by (simp add: Let_def)

lemma adjust_five_singles:
  assumes ms: "length (members c1) = 5" "\<forall>f\<in>set (members c1). length (family f) = 1"
    and o: "minSubsetSize opts = 3" "maxSubsetSize opts = 4"
  shows "adjustClusterSizes rnd k [c1] opts (Some 1) = None"
proof -
  obtain sh k' where sh: "shuffle rnd k (members c1) = (sh, k')" "mset sh = mset (members c1)"
    by (rule shuffle_obtain)
  have l: "length sh = 5" using mset_eq_length[OF sh(2)] ms(1) by simp
  have s: "\<forall>f\<in>set sh. length (family f) = 1" using mset_eq_setD[OF sh(2)] ms(2) by simp
  from split_five_singles[OF l s o, of "centerFeatures c1"] obtain a b where
    ab: "fold (splitStep opts (centerFeatures c1)) sh ([], 0, [], []) = ([a], 1, [b], [])"
    "length (family a) = 1" "clusterSize (members b) = 4" by blast
  have ne: "members c1 \<noteq> []" using ms(1) by auto
  have t: "maxSubsetSize opts < int (clusterSize (members c1))"
    using clusterSize_singles[OF ms(2)] ms(1) o by simp
  have cl: "fold (classifyCenter rnd opts) [c1] ([], [], k) = ([b], [a], k')"
    unfolding classify_oversized[OF ne t sh(1) ab(1)] using o by simp
  have "redistributeLoop opts 1 ([b], [a]) = None"
    by (rule redistributeLoop_stalls) (simp_all add: ab o)
  then show ?thesis unfolding adjustClusterSizes_def cl by (simp add: effectiveMax_def)
qed


lemma adjust_two_families:
  assumes ms: "members c1 = [f3, f2]" "length (family f3) = 3" "length (family f2) = 2"
    and o: "minSubsetSize opts = 3" "maxSubsetSize opts = 4"
  shows "adjustClusterSizes rnd k [c1] opts (Some 1) = None"
proof -
  obtain sh k' where sh: "shuffle rnd k (members c1) = (sh, k')" "mset sh = mset (members c1)"
    by (rule shuffle_obtain)
  have "length sh = 2" using mset_eq_length[OF sh(2)] ms(1) by simp
  then obtain x y where xy: "sh = [x, y]" by (rule list2)
  have cases: "sh = [f3, f2] \<or> sh = [f2, f3]"
    using two_element_mset[of x y f3 f2] sh(2) xy ms(1) by simp
  have ne: "members c1 \<noteq> []" using ms(1) by simp
  have t: "maxSubsetSize opts < int (clusterSize (members c1))"
    using ms o by (simp add: clusterSize_def)
  have "\<exists>b. fold (classifyCenter rnd opts) [c1] ([], [], k) = ([b], [f2], k')
        \<and> clusterSize (members b) = 3"
    using cases
  proof
    assume e: "sh = [f3, f2]"
    have f: "fold (splitStep opts (centerFeatures c1)) sh ([], 0, [], [])
        = ([f2], 2, [\<lparr> centerId = 0, centerFeatures = centerFeatures c1, members = [f3] \<rparr>], [])"
      using e ms o by simp
    show ?thesis unfolding classify_oversized[OF ne t sh(1) f] using o ms by (simp add: clusterSize_def)
  next
    assume e: "sh = [f2, f3]"
    have f: "fold (splitStep opts (centerFeatures c1)) sh ([], 0, [], [])
        = ([f3], 3, [], [f2])"
      using e ms o by simp
    show ?thesis unfolding classify_oversized[OF ne t sh(1) f] using o ms by (simp add: clusterSize_def)
  qed
  then obtain b where cl: "fold (classifyCenter rnd opts) [c1] ([], [], k) = ([b], [f2], k')"
    and b: "clusterSize (members b) = 3" by blast
  have "redistributeLoop opts 1 ([b], [f2]) = None"
    by (rule redistributeLoop_stalls) (simp_all add: b ms o)
  then show ?thesis unfolding adjustClusterSizes_def cl by (simp add: effectiveMax_def)
qed

text \<open>\<^verbatim>\<open>solveClustering\<close> up to \<^verbatim>\<open>adjustClusterSizes\<close> when there is one cluster.\<close>

lemma solveClustering_one_cluster:
  assumes ne: "competitors \<noteq> []"
    and fam: "\<forall>fam\<in>set (createGuardianFamilies competitors). fam \<noteq> []"
       "createGuardianFamilies competitors \<noteq> []"
    and nc: "numClustersFor (validateAndSanitizeOptions options (length competitors))
               (length competitors) (length (createGuardianFamilies competitors)) = 1"
    and adj: "\<And>c1 k. map family (members c1) = createGuardianFamilies competitors \<Longrightarrow>
       adjustClusterSizes rnd k [c1] (validateAndSanitizeOptions options (length competitors)) (Some 1) = None"
  shows "solveClustering rnd competitors options = None"
proof -
  let ?opts = "validateAndSanitizeOptions options (length competitors)"
  let ?g = "\<lambda>f. f\<lparr> clusterId := (0::int) \<rparr>"
  obtain ffs where ffs: "createFamilyFeatures (createGuardianFamilies competitors) competitors = Inr ffs"
    "map family ffs = createGuardianFamilies competitors"
    using createFamilyFeatures_ok[OF fam(1)] by blast
  have "ffs \<noteq> []" using ffs(2) fam(2) by auto
  then obtain c0 where c0: "initializeClusterCenters rnd 0 ffs 1 = Inr ([c0], 0 + 1)"
    using init_one_center[of ffs 1 rnd 0] by auto
  obtain c1 where c1: "kmeansLoop 0 ffs [c0] ?opts (clusteringFeatureWeights competitors)
       = Inr (map ?g ffs, [c1])" "members c1 = map ?g ffs"
    using kmeans_single[of ffs c0 ?opts "clusteringFeatureWeights competitors"] by auto
  have "map family (members c1) = createGuardianFamilies competitors"
    using c1(2) ffs(2) by (simp add: comp_def)
  from adj[OF this] have a: "adjustClusterSizes rnd (0 + 1) [c1] ?opts (Some 1) = None" .
  show ?thesis
    using ne nc ffs(1) c0 c1(1) a by (simp add: solveClustering_def Let_def)
qed

lemma length_fiveSingles: "length fiveSingles = 5"
  by (simp add: fiveSingles_def)

lemma length_twoFamilies: "length twoFamilies = 5"
  by (simp add: twoFamilies_def)

text \<open>
  C2. Five competitors without guardians and the options \<^verbatim>\<open>{ minSubsetSize: 3 }\<close>:
  whatever the random numbers are, \<^verbatim>\<open>solveClustering\<close> does not return. The single
  cluster of five is split into a group of four and one left-over competitor; the group is
  full, the number of groups has reached the number of clusters, and the redistribution
  loop runs without changing its state. No partition is returned at all.
\<close>

theorem clustering_never_returns_on_five_singles: "solveClustering rnd fiveSingles minThree = None"
proof (rule solveClustering_one_cluster)
  show "fiveSingles \<noteq> []" by (simp add: fiveSingles_def)
  show "\<forall>fam\<in>set (createGuardianFamilies fiveSingles). fam \<noteq> []"
    by (simp add: families_five)
  show "createGuardianFamilies fiveSingles \<noteq> []"
    unfolding families_five by (simp add: fiveSingles_def)
  show "numClustersFor (validateAndSanitizeOptions minThree (length fiveSingles))
               (length fiveSingles) (length (createGuardianFamilies fiveSingles)) = 1"
    unfolding families_five length_map length_fiveSingles sanitize_minThree
    by (rule numClusters_five(1))
next
  fix c1 :: ClusterCenter and k :: nat
  assume m: "map family (members c1) = createGuardianFamilies fiveSingles"
  have l: "length (members c1) = 5"
    using arg_cong[OF m, of length] unfolding families_five length_map length_fiveSingles .
  have s: "\<forall>f\<in>set (members c1). length (family f) = 1"
  proof
    fix f assume "f \<in> set (members c1)"
    then have "family f \<in> set (map family (members c1))" by simp
    then show "length (family f) = 1" unfolding m families_five by auto
  qed
  have "adjustClusterSizes rnd k [c1] (validateAndSanitizeOptions minThree 5) (Some 1) = None"
    by (rule adjust_five_singles[OF l s]) (simp_all add: sanitize_minThree)
  then show "adjustClusterSizes rnd k [c1]
        (validateAndSanitizeOptions minThree (length fiveSingles)) (Some 1) = None"
    unfolding length_fiveSingles .
qed

text \<open>
  C1. A guardian with two dependents, a guardian with one dependent, and the options
  \<^verbatim>\<open>{ minSubsetSize: 3 }\<close>: whatever the random numbers are,
  \<^verbatim>\<open>solveClustering\<close> does not return. The family of three forms a group, the family of
  two fits nowhere, no further group may be opened, and the redistribution loop runs
  without changing its state. No output groups are produced for these families.
\<close>

theorem clustering_never_returns_on_two_families: "solveClustering rnd twoFamilies minThree = None"
proof (rule solveClustering_one_cluster)
  show "twoFamilies \<noteq> []" by (simp add: twoFamilies_def)
  show "\<forall>fam\<in>set (createGuardianFamilies twoFamilies). fam \<noteq> []"
    by (simp add: families_two)
  show "createGuardianFamilies twoFamilies \<noteq> []" by (simp add: families_two)
  show "numClustersFor (validateAndSanitizeOptions minThree (length twoFamilies))
               (length twoFamilies) (length (createGuardianFamilies twoFamilies)) = 1"
    unfolding families_two length_twoFamilies sanitize_minThree
    using numClusters_five(2) by (simp add: numeral_2_eq_2)
next
  fix c1 :: ClusterCenter and k :: nat
  assume m: "map family (members c1) = createGuardianFamilies twoFamilies"
  then obtain f3 f2 where fs: "members c1 = [f3, f2]"
    "family f3 = [plainCompetitor ''001'', dependentOf ''001'' ''002'', dependentOf ''001'' ''003'']"
    "family f2 = [plainCompetitor ''004'', dependentOf ''004'' ''005'']"
    unfolding families_two by (auto simp: map_eq_Cons_conv)
  have "adjustClusterSizes rnd k [c1] (validateAndSanitizeOptions minThree 5) (Some 1) = None"
    by (rule adjust_two_families[OF fs(1)]) (simp_all add: fs sanitize_minThree)
  then show "adjustClusterSizes rnd k [c1]
        (validateAndSanitizeOptions minThree (length twoFamilies)) (Some 1) = None"
    unfolding length_twoFamilies .
qed

end
